theory Spec2Isabelle
  imports Complex_Main
begin

section \<open>Time values and calendar arithmetic of the JavaScript runtime\<close>

text \<open>
  The server functions of PesoPilot compute their date ranges with the JavaScript
  \<^verbatim>\<open>Date\<close> object. A \<^verbatim>\<open>Date\<close> holds one integer, its time value: the
  milliseconds since 1970-01-01T00:00:00Z. The getters and setters used by the source
  (\<^verbatim>\<open>getDate\<close>, \<^verbatim>\<open>getDay\<close>, \<^verbatim>\<open>getMonth\<close>, \<^verbatim>\<open>getFullYear\<close>,
  \<^verbatim>\<open>setDate\<close>, \<^verbatim>\<open>setHours\<close>, the constructor with year, month and day, and
  \<^verbatim>\<open>toISOString\<close>) are defined by ECMA-262 through the abstract operations below,
  which keep the names of the standard.

  Three things are fixed by the model and not by the source:
  \<^item> the offset of the server's local time from UTC is one integer \<open>tza\<close> (milliseconds)
    that does not change with the instant, so daylight-saving transitions are not modelled;
  \<^item> time values are unbounded integers (the runtime clips at about 275000 years from
    the epoch and has a \<^verbatim>\<open>NaN\<close> value for an invalid date);
  \<^item> a calendar date that the source handles as the text \<^verbatim>\<open>YYYY-MM-DD\<close> (the first
    part of \<^verbatim>\<open>toISOString()\<close>, a \<^verbatim>\<open>DATE\<close> column of the store) is represented by
    its day number, the count of days since 1970-01-01. For the years 0000 to 9999 the text
    and the day number determine each other and are ordered alike.
\<close>

definition msPerDay :: int where
  "msPerDay = 86400000"

definition Day :: "int \<Rightarrow> int" where
  "Day t = t div msPerDay"

definition TimeWithinDay :: "int \<Rightarrow> int" where
  "TimeWithinDay t = t mod msPerDay"

definition DaysInYear :: "int \<Rightarrow> int" where
  "DaysInYear y =
     (if y mod 4 \<noteq> 0 then 365
      else if y mod 100 \<noteq> 0 then 366
      else if y mod 400 \<noteq> 0 then 365
      else 366)"

definition DayFromYear :: "int \<Rightarrow> int" where
  "DayFromYear y =
     365 * (y - 1970) + (y - 1969) div 4 - (y - 1901) div 100 + (y - 1601) div 400"

text \<open>
  ECMA-262 specifies \<open>YearFromTime t\<close> as the largest year \<open>y\<close> whose first day is not
  after \<open>t\<close>. The definition computes it: an estimate from the mean length of a year,
  moved by one year where the estimate is off. Lemmas \<open>YearFromTime_lower\<close>,
  \<open>YearFromTime_upper\<close> and \<open>YearFromTime_unique\<close> below show that the result is the
  year of the standard.
\<close>

definition YearFromTime :: "int \<Rightarrow> int" where
  "YearFromTime t =
     (let y = 1970 + (400 * Day t) div 146097 in
      if Day t < DayFromYear y then y - 1
      else if DayFromYear (y + 1) \<le> Day t then y + 1
      else y)"

definition LeapOfYear :: "int \<Rightarrow> int" where
  "LeapOfYear y = (if DaysInYear y = 365 then 0 else 1)"

definition InLeapYear :: "int \<Rightarrow> int" where
  "InLeapYear t = LeapOfYear (YearFromTime t)"

definition DayWithinYear :: "int \<Rightarrow> int" where
  "DayWithinYear t = Day t - DayFromYear (YearFromTime t)"

definition MonthFromTime :: "int \<Rightarrow> int" where
  "MonthFromTime t =
     (let d = DayWithinYear t; l = InLeapYear t in
      if d < 31 then 0
      else if d < 59 + l then 1
      else if d < 90 + l then 2
      else if d < 120 + l then 3
      else if d < 151 + l then 4
      else if d < 181 + l then 5
      else if d < 212 + l then 6
      else if d < 243 + l then 7
      else if d < 273 + l then 8
      else if d < 304 + l then 9
      else if d < 334 + l then 10
      else 11)"

text \<open>
  \<open>MonthStart m l\<close> is the day within the year on which month \<open>m\<close> (0 = January) begins,
  \<open>l\<close> being 1 in a leap year: the lower bounds of the table of \<open>MonthFromTime\<close>.
\<close>

definition MonthStart :: "int \<Rightarrow> int \<Rightarrow> int" where
  "MonthStart m l =
     (if m = 0 then 0
      else if m = 1 then 31
      else if m = 2 then 59 + l
      else if m = 3 then 90 + l
      else if m = 4 then 120 + l
      else if m = 5 then 151 + l
      else if m = 6 then 181 + l
      else if m = 7 then 212 + l
      else if m = 8 then 243 + l
      else if m = 9 then 273 + l
      else if m = 10 then 304 + l
      else 334 + l)"

definition DateFromTime :: "int \<Rightarrow> int" where
  "DateFromTime t = DayWithinYear t - MonthStart (MonthFromTime t) (InLeapYear t) + 1"

definition WeekDay :: "int \<Rightarrow> int" where
  "WeekDay t = (Day t + 4) mod 7"

definition MakeTime :: "int \<Rightarrow> int \<Rightarrow> int \<Rightarrow> int \<Rightarrow> int" where
  "MakeTime hour minute sec ms = hour * 3600000 + minute * 60000 + sec * 1000 + ms"

text \<open>
  \<open>MakeDay\<close>: months outside 0..11 carry into the year, and the day of the month may be
  any integer (day 0 is the last day of the month before). The standard asks for the day
  number of a time value whose year, month and date are the normalised year, the
  normalised month and 1, plus the date minus 1; lemma \<open>MakeDay_standard\<close> shows that
  the closed form below is that day number.
\<close>

definition MakeDay :: "int \<Rightarrow> int \<Rightarrow> int \<Rightarrow> int" where
  "MakeDay year month date =
     (let ym = year + month div 12; mn = month mod 12 in
      DayFromYear ym + MonthStart mn (LeapOfYear ym) + date - 1)"

definition MakeDate :: "int \<Rightarrow> int \<Rightarrow> int" where
  "MakeDate day time = day * msPerDay + time"

definition LocalTime :: "int \<Rightarrow> int \<Rightarrow> int" where
  "LocalTime tza t = t + tza"

definition UTC :: "int \<Rightarrow> int \<Rightarrow> int" where
  "UTC tza t = t - tza"

subsection \<open>The methods of \<^verbatim>\<open>Date\<close> that the source calls\<close>

text \<open>A \<^verbatim>\<open>Date\<close> object is its time value; a setter returns the new time value.\<close>

type_synonym date = int

definition getFullYear :: "int \<Rightarrow> date \<Rightarrow> int" where
  "getFullYear tza d = YearFromTime (LocalTime tza d)"

definition getMonth :: "int \<Rightarrow> date \<Rightarrow> int" where
  "getMonth tza d = MonthFromTime (LocalTime tza d)"

definition getDate :: "int \<Rightarrow> date \<Rightarrow> int" where
  "getDate tza d = DateFromTime (LocalTime tza d)"

definition getDay :: "int \<Rightarrow> date \<Rightarrow> int" where
  "getDay tza d = WeekDay (LocalTime tza d)"

definition setDate :: "int \<Rightarrow> date \<Rightarrow> int \<Rightarrow> date" where
  "setDate tza d dt =
     (let t = LocalTime tza d in
      UTC tza (MakeDate (MakeDay (YearFromTime t) (MonthFromTime t) dt) (TimeWithinDay t)))"

text \<open>\<^verbatim>\<open>d.setHours(0, 0, 0, 0)\<close>: the same local day, at its midnight.\<close>

definition setHours0 :: "int \<Rightarrow> date \<Rightarrow> date" where
  "setHours0 tza d = UTC tza (MakeDate (Day (LocalTime tza d)) (MakeTime 0 0 0 0))"

text \<open>
  \<^verbatim>\<open>new Date(year, month, day)\<close>: local midnight of that day. The constructor reads a
  year from 0 to 99 as 1900 + year.
\<close>

definition newDate :: "int \<Rightarrow> int \<Rightarrow> int \<Rightarrow> int \<Rightarrow> date" where
  "newDate tza year month day =
     (let yr = (if 0 \<le> year \<and> year \<le> 99 then 1900 + year else year) in
      UTC tza (MakeDate (MakeDay yr month day) (MakeTime 0 0 0 0)))"

text \<open>
  \<^verbatim>\<open>d.toISOString().split("T")[0]\<close>: the calendar date of the instant in UTC, whatever the
  local offset.
\<close>

definition toISODate :: "date \<Rightarrow> int" where
  "toISODate d = Day d"

text \<open>
  The length of a month of the Gregorian calendar (month 0 = January, 1 = February with
  its leap day, ...). It is not part of the runtime: the statements about the first and
  the last day of a month are phrased with it.
\<close>

definition DaysInMonth :: "int \<Rightarrow> int \<Rightarrow> int" where
  "DaysInMonth y m =
     (if m = 1 then 28 + LeapOfYear y
      else if m = 3 \<or> m = 5 \<or> m = 8 \<or> m = 10 then 30
      else 31)"


subsection \<open>The calendar functions are the ones of the standard\<close>

lemma div_bounds:
  fixes a k :: int
  assumes "0 < k"
  shows "k * (a div k) \<le> a \<and> a < k * (a div k) + k"
proof -
  have "a = k * (a div k) + a mod k" by simp
  moreover have "0 \<le> a mod k" "a mod k < k" using assms by simp_all
  ultimately show ?thesis by linarith
qed

lemma div_succ:
  fixes a k :: int
  assumes k: "0 < k"
  shows "(a + 1) div k = a div k + (if (a + 1) mod k = 0 then 1 else 0)"
proof (cases "a mod k + 1 < k")
  case True
  have "a + 1 = k * (a div k) + (a mod k + 1)" by simp
  moreover have "0 \<le> a mod k + 1" using k by (simp add: add_nonneg_nonneg)
  ultimately have d: "(a + 1) div k = a div k" and m: "(a + 1) mod k = a mod k + 1"
    using True int_div_pos_eq int_mod_pos_eq by blast+
  have "0 \<le> a mod k" using k by simp
  with m have "(a + 1) mod k \<noteq> 0" by linarith
  with d show ?thesis by simp
next
  case False
  have "a mod k < k" using k by simp
  with False have r: "a mod k = k - 1" by linarith
  have "a + 1 = k * (a div k) + a mod k + 1" by simp
  also have "\<dots> = k * (a div k + 1) + 0" unfolding r by (simp add: algebra_simps)
  finally have "a + 1 = k * (a div k + 1) + 0" .
  then have d: "(a + 1) div k = a div k + 1" and m: "(a + 1) mod k = 0"
    using k int_div_pos_eq[of "a + 1" k "a div k + 1" 0]
      int_mod_pos_eq[of "a + 1" k "a div k + 1" 0]
    by simp_all
  then show ?thesis by simp
qed

lemma mod_shift: "(y - k * c) mod k = y mod k" for y :: int
proof -
  have "y - k * c = y + k * (- c)" by simp
  then show ?thesis by (metis mod_mult_self2)
qed

lemma DaysInYear_ge: "365 \<le> DaysInYear y"
  unfolding DaysInYear_def by simp

lemma DaysInYear_Leap: "DaysInYear y = 365 + LeapOfYear y"
  unfolding DaysInYear_def LeapOfYear_def by simp

lemma LeapOfYear_range: "0 \<le> LeapOfYear y \<and> LeapOfYear y \<le> 1"
  unfolding LeapOfYear_def by simp

lemma DayFromYear_Suc: "DayFromYear (y + 1) = DayFromYear y + DaysInYear y"
proof -
  define A where "A = (y - 1969) div 4"
  define B where "B = (y - 1901) div 100"
  define C where "C = (y - 1601) div 400"
  have a: "(y - 1968) div 4 = A + (if y mod 4 = 0 then 1 else 0)"
    using div_succ[of 4 "y - 1969"] mod_shift[of y 4 492] by (simp add: A_def)
  have b: "(y - 1900) div 100 = B + (if y mod 100 = 0 then 1 else 0)"
    using div_succ[of 100 "y - 1901"] mod_shift[of y 100 19] by (simp add: B_def)
  have c: "(y - 1600) div 400 = C + (if y mod 400 = 0 then 1 else 0)"
    using div_succ[of 400 "y - 1601"] mod_shift[of y 400 4] by (simp add: C_def)
  have d: "y mod 400 = 0 \<Longrightarrow> y mod 100 = 0"
    using mod_mod_cancel[of 100 400 y] by simp
  have e: "y mod 100 = 0 \<Longrightarrow> y mod 4 = 0"
    using mod_mod_cancel[of 4 100 y] by simp
  have l: "DayFromYear (y + 1) =
      365 * (y - 1969) + (y - 1968) div 4 - (y - 1900) div 100 + (y - 1600) div 400"
    by (simp add: DayFromYear_def)
  have r: "DayFromYear y = 365 * (y - 1970) + A - B + C"
    by (simp add: DayFromYear_def A_def B_def C_def)
  show ?thesis
    unfolding l r a b c DaysInYear_def using d e by (simp split: if_splits)
qed

lemma DayFromYear_mono: "a \<le> b \<Longrightarrow> DayFromYear a \<le> DayFromYear b"
proof (induction b rule: int_ge_induct)
  case base
  show ?case by simp
next
  case (step i)
  then show ?case using DayFromYear_Suc[of i] DaysInYear_ge[of i] by linarith
qed

lemma DayFromYear_bounds:
  "146097 * (y - 1970) - 506 \<le> 400 * DayFromYear y"
  "400 * DayFromYear y \<le> 146097 * (y - 1970) + 589"
proof -
  define A where "A = (y - 1969) div 4"
  define B where "B = (y - 1901) div 100"
  define C where "C = (y - 1601) div 400"
  have a: "4 * A \<le> y - 1969" "y - 1969 < 4 * A + 4"
    using div_bounds[of 4 "y - 1969"] by (simp_all add: A_def)
  have b: "100 * B \<le> y - 1901" "y - 1901 < 100 * B + 100"
    using div_bounds[of 100 "y - 1901"] by (simp_all add: B_def)
  have c: "400 * C \<le> y - 1601" "y - 1601 < 400 * C + 400"
    using div_bounds[of 400 "y - 1601"] by (simp_all add: C_def)
  have d: "DayFromYear y = 365 * y - 719050 + A - B + C"
    by (simp add: DayFromYear_def A_def B_def C_def)
  have "146097 * y - 287811596 \<le> 400 * DayFromYear y"
    using a b c d by linarith
  then show "146097 * (y - 1970) - 506 \<le> 400 * DayFromYear y" by simp
  have "400 * DayFromYear y \<le> 146097 * y - 287810501"
    using a b c d by linarith
  then show "400 * DayFromYear y \<le> 146097 * (y - 1970) + 589" by simp
qed

lemma YearFromTime_lower: "DayFromYear (YearFromTime t) \<le> Day t"
proof -
  define q where "q = (400 * Day t) div 146097"
  have q: "146097 * q \<le> 400 * Day t"
    using div_bounds[of 146097 "400 * Day t"] by (simp add: q_def)
  have "400 * DayFromYear (1970 + q - 1) \<le> 400 * Day t"
    using DayFromYear_bounds(2)[of "1970 + q - 1"] q by simp
  then have "DayFromYear (1970 + q - 1) \<le> Day t" by simp
  then show ?thesis
    unfolding YearFromTime_def Let_def q_def[symmetric] by auto
qed

lemma YearFromTime_upper: "Day t < DayFromYear (YearFromTime t + 1)"
proof -
  define q where "q = (400 * Day t) div 146097"
  have q: "400 * Day t < 146097 * q + 146097"
    using div_bounds[of 146097 "400 * Day t"] by (simp add: q_def)
  have "400 * Day t < 400 * DayFromYear (1970 + q + 1 + 1)"
    using DayFromYear_bounds(1)[of "1970 + q + 1 + 1"] q by simp
  then have "Day t < DayFromYear (1970 + q + 1 + 1)" by simp
  then show ?thesis
    unfolding YearFromTime_def Let_def q_def[symmetric] by auto
qed

lemma YearFromTime_unique:
  assumes "DayFromYear y \<le> Day t" and "Day t < DayFromYear (y + 1)"
  shows "YearFromTime t = y"
proof (rule ccontr)
  let ?Y = "YearFromTime t"
  assume ne: "?Y \<noteq> y"
  show False
  proof (cases "?Y < y")
    case True
    then have "DayFromYear (?Y + 1) \<le> DayFromYear y"
      by (intro DayFromYear_mono) simp
    with assms(1) YearFromTime_upper[of t] show False by linarith
  next
    case False
    with ne have "y + 1 \<le> ?Y" by simp
    then have "DayFromYear (y + 1) \<le> DayFromYear ?Y" by (rule DayFromYear_mono)
    with assms(2) YearFromTime_lower[of t] show False by linarith
  qed
qed


lemma MonthFromTime_range: "0 \<le> MonthFromTime t \<and> MonthFromTime t \<le> 11"
  unfolding MonthFromTime_def Let_def by simp

lemma MakeDay_roundtrip:
  "MakeDay (YearFromTime t) (MonthFromTime t) dt = Day t - DateFromTime t + dt"
proof -
  have "MonthFromTime t div 12 = 0" "MonthFromTime t mod 12 = MonthFromTime t"
    using MonthFromTime_range[of t] by simp_all
  then show ?thesis
    unfolding MakeDay_def Let_def DateFromTime_def DayWithinYear_def InLeapYear_def
    by simp
qed

lemma msPerDay_pos: "0 < msPerDay"
  by (simp add: msPerDay_def)

lemma Day_TimeWithinDay: "Day t * msPerDay + TimeWithinDay t = t"
  unfolding Day_def TimeWithinDay_def by simp

lemma Day_MakeDate:
  assumes "0 \<le> time" "time < msPerDay"
  shows "Day (MakeDate day time) = day" and "TimeWithinDay (MakeDate day time) = time"
  using assms unfolding Day_def TimeWithinDay_def MakeDate_def by simp_all

lemma Day_add_days: "Day (t + k * msPerDay) = Day t + k"
  unfolding Day_def using msPerDay_pos by simp

lemma TimeWithinDay_add_days: "TimeWithinDay (t + k * msPerDay) = TimeWithinDay t"
  unfolding TimeWithinDay_def by simp

lemma setDate_getDate:
  "setDate tza d (getDate tza d + k) = d + k * msPerDay"
proof -
  let ?t = "LocalTime tza d"
  have "MakeDate (Day ?t + k) (TimeWithinDay ?t) = ?t + k * msPerDay"
    using Day_TimeWithinDay[of ?t] unfolding MakeDate_def by (simp add: algebra_simps)
  then show ?thesis
    unfolding setDate_def getDate_def Let_def MakeDay_roundtrip
    by (simp add: UTC_def LocalTime_def)
qed

lemma WeekDay_add_days: "WeekDay (t + k * msPerDay) = (WeekDay t + k) mod 7"
  unfolding WeekDay_def Day_add_days by (simp add: mod_simps algebra_simps)

lemma MonthFromTime_cases:
  "MonthFromTime t = 0 \<or> MonthFromTime t = 1 \<or> MonthFromTime t = 2 \<or> MonthFromTime t = 3
   \<or> MonthFromTime t = 4 \<or> MonthFromTime t = 5 \<or> MonthFromTime t = 6 \<or> MonthFromTime t = 7
   \<or> MonthFromTime t = 8 \<or> MonthFromTime t = 9 \<or> MonthFromTime t = 10 \<or> MonthFromTime t = 11"
  unfolding MonthFromTime_def Let_def by simp

lemma civil_of_day:
  assumes mc: "m = 0 \<or> m = 1 \<or> m = 2 \<or> m = 3 \<or> m = 4 \<or> m = 5 \<or> m = 6 \<or> m = 7
      \<or> m = 8 \<or> m = 9 \<or> m = 10 \<or> m = 11"
    and dd: "1 \<le> dd" "dd \<le> DaysInMonth y m"
    and D: "Day t = DayFromYear y + MonthStart m (LeapOfYear y) + dd - 1"
  shows "YearFromTime t = y" and "MonthFromTime t = m" and "DateFromTime t = dd"
proof -
  define l where "l = LeapOfYear y"
  have l: "0 \<le> l" "l \<le> 1" using LeapOfYear_range[of y] unfolding l_def by simp_all
  have dd': "dd \<le> DaysInMonth y m" by (rule dd(2))
  have w: "0 \<le> MonthStart m l + dd - 1 \<and> MonthStart m l + dd - 1 < 365 + l"
    using mc dd(1) dd' l unfolding DaysInMonth_def MonthStart_def l_def[symmetric]
    by (elim disjE; simp)
  have "DayFromYear y \<le> Day t" using D w unfolding l_def by linarith
  moreover have "Day t < DayFromYear (y + 1)"
    using D w DayFromYear_Suc[of y] DaysInYear_Leap[of y] unfolding l_def by linarith
  ultimately show y: "YearFromTime t = y" by (rule YearFromTime_unique)
  have dwy: "DayWithinYear t = MonthStart m l + dd - 1"
    unfolding DayWithinYear_def y D l_def by simp
  have il: "InLeapYear t = l" unfolding InLeapYear_def y l_def ..
  show mo: "MonthFromTime t = m"
    unfolding MonthFromTime_def Let_def dwy il
    using mc dd(1) dd' l unfolding DaysInMonth_def MonthStart_def l_def[symmetric]
    by (elim disjE; simp)
  show "DateFromTime t = dd"
    unfolding DateFromTime_def mo dwy il by simp
qed

lemma DaysInMonth_ge: "28 \<le> DaysInMonth y m"
  unfolding DaysInMonth_def using LeapOfYear_range[of y] by simp

lemma int_below_12:
  fixes x :: int
  assumes "0 \<le> x" "x < 12"
  shows "x = 0 \<or> x = 1 \<or> x = 2 \<or> x = 3 \<or> x = 4 \<or> x = 5 \<or> x = 6 \<or> x = 7
      \<or> x = 8 \<or> x = 9 \<or> x = 10 \<or> x = 11"
proof -
  have "x \<in> set [0..11]" using assms by simp
  also have "[0..11::int] = [0, 1, 2, 3, 4, 5, 6, 7, 8, 9, 10, 11]" by code_simp
  finally show ?thesis by simp
qed

lemma MakeDay_standard:
  assumes "Day t = MakeDay year month 1"
  shows "YearFromTime t = year + month div 12 \<and> MonthFromTime t = month mod 12
       \<and> DateFromTime t = 1"
proof -
  have mc: "month mod 12 = 0 \<or> month mod 12 = 1 \<or> month mod 12 = 2 \<or> month mod 12 = 3
      \<or> month mod 12 = 4 \<or> month mod 12 = 5 \<or> month mod 12 = 6 \<or> month mod 12 = 7
      \<or> month mod 12 = 8 \<or> month mod 12 = 9 \<or> month mod 12 = 10 \<or> month mod 12 = 11"
    by (rule int_below_12) simp_all
  have d: "Day t = DayFromYear (year + month div 12)
      + MonthStart (month mod 12) (LeapOfYear (year + month div 12)) + 1 - 1"
    using assms unfolding MakeDay_def Let_def by simp
  have "1 \<le> DaysInMonth (year + month div 12) (month mod 12)"
    using DaysInMonth_ge[of "year + month div 12" "month mod 12"] by simp
  from civil_of_day[OF mc _ this d] show ?thesis by simp
qed


lemma Day_of_date: "Day (d * msPerDay) = d"
  unfolding Day_def using msPerDay_pos by simp


section \<open>Budget accounting\<close>

text \<open>
  The server module with \<^verbatim>\<open>getBudgetSummary\<close> and \<^verbatim>\<open>getSpendingOverTime\<close> (the
  ``budget API'') reads two tables of the store, \<^verbatim>\<open>budgets\<close> and \<^verbatim>\<open>expenses\<close>. A
  table is the list of its rows. Fields that several records of the source share
  (\<^verbatim>\<open>id\<close>, \<^verbatim>\<open>user_id\<close>, \<^verbatim>\<open>amount\<close>, \<^verbatim>\<open>created_at\<close>, \<^verbatim>\<open>date\<close>,
  \<^verbatim>\<open>description\<close>) carry the name of their record as a prefix. Amounts are JavaScript
  numbers in the source and real numbers here: rounding of floating-point sums and the
  value \<^verbatim>\<open>NaN\<close> are outside the model.
\<close>

datatype period = weekly | monthly

record Budget =
  budget_id :: string
  budget_user_id :: string
  budget_amount :: real
  period :: period
  budget_created_at :: int

record Expense =
  expense_id :: string
  expense_user_id :: string
  expense_amount :: real
  category :: string
  expense_description :: string
  expense_date :: int
  expense_created_at :: int

text \<open>
  \<^verbatim>\<open>.single()\<close> of the store client: the row when the query has exactly one, and no data
  (\<^verbatim>\<open>null\<close>, with an error that the callers below ignore) otherwise.
\<close>

definition single :: "'a list \<Rightarrow> 'a option" where
  "single rows = (case rows of [r] \<Rightarrow> Some r | _ \<Rightarrow> None)"

record BudgetSummary =
  budget :: "Budget option"
  totalSpent :: real
  remaining :: real
  percentageUsed :: real
  expenses :: "Expense list"

text \<open>
  The date range of \<^verbatim>\<open>getBudgetSummary\<close>: the two \<^verbatim>\<open>Date\<close> objects
  \<^verbatim>\<open>startDate\<close> and \<^verbatim>\<open>endDate\<close>. The weekly branch is taken when a budget row was
  found and its period is weekly; every other case, a missing budget included, takes the
  monthly branch.
\<close>

definition periodRange :: "int \<Rightarrow> Budget option \<Rightarrow> date \<Rightarrow> date \<times> date" where
  "periodRange tza b now =
     (if map_option period b = Some weekly then
        (let startDate = setHours0 tza (setDate tza now (getDate tza now - getDay tza now));
             endDate = setDate tza startDate (getDate tza startDate + 6)
         in (startDate, endDate))
      else
        (newDate tza (getFullYear tza now) (getMonth tza now) 1,
         newDate tza (getFullYear tza now) (getMonth tza now + 1) 0))"

text \<open>
  The query for the expenses of the period: the caller's rows whose date lies between the
  ISO dates of the two instants, newest first. The store does not fix the order of rows
  with the same date; the model keeps them in the order of a stable sort.
\<close>

definition periodExpenses :: "Expense list \<Rightarrow> string \<Rightarrow> date \<Rightarrow> date \<Rightarrow> Expense list" where
  "periodExpenses tbl u startDate endDate =
     rev (sort_key expense_date
       (filter (\<lambda>e. expense_user_id e = u
                  \<and> toISODate startDate \<le> expense_date e
                  \<and> expense_date e \<le> toISODate endDate) tbl))"

text \<open>
  \<^verbatim>\<open>getBudgetSummary\<close>, for a caller \<open>user\<close> (\<open>None\<close> when nobody is signed in) and
  the clock reading \<open>now\<close>. Row-level security lets a caller read only rows of their own,
  which is also what the two queries ask for. A read that fails gives \<^verbatim>\<open>null\<close> to the
  source, which treats it like an empty answer.
\<close>

definition getBudgetSummary ::
  "int \<Rightarrow> Budget list \<Rightarrow> Expense list \<Rightarrow> string option \<Rightarrow> date \<Rightarrow> BudgetSummary" where
  "getBudgetSummary tza budgets_tbl expenses_tbl user now =
     (case user of
        None \<Rightarrow>
          \<lparr>budget = None, totalSpent = 0, remaining = 0, percentageUsed = 0, expenses = []\<rparr>
      | Some u \<Rightarrow>
          (let budget = single (filter (\<lambda>b. budget_user_id b = u) budgets_tbl);
               (startDate, endDate) = periodRange tza budget now;
               expensesList = periodExpenses expenses_tbl u startDate endDate;
               totalSpent = foldl (\<lambda>sum exp. sum + expense_amount exp) 0 expensesList;
               budgetAmount = (case budget of Some b \<Rightarrow> budget_amount b | None \<Rightarrow> 0);
               remaining = max 0 (budgetAmount - totalSpent);
               percentageUsed =
                 (if budgetAmount > 0 then (totalSpent / budgetAmount) * 100 else 0)
           in \<lparr>budget = budget, totalSpent = totalSpent, remaining = remaining,
                percentageUsed = min percentageUsed 100, expenses = expensesList\<rparr>))"

subsection \<open>Example data\<close>

definition budget_w :: Budget where
  "budget_w = \<lparr>budget_id = ''b1'', budget_user_id = ''u1'', budget_amount = 5000,
      period = weekly, budget_created_at = 0\<rparr>"

definition budget_m :: Budget where
  "budget_m = \<lparr>budget_id = ''b1'', budget_user_id = ''u1'', budget_amount = 5000,
      period = monthly, budget_created_at = 0\<rparr>"

definition expenses_june :: "Expense list" where
  "expenses_june =
     [\<lparr>expense_id = ''e1'', expense_user_id = ''u1'', expense_amount = 1000,
        category = ''Food & Dining'', expense_description = ''groceries'',
        expense_date = 19878, expense_created_at = 0\<rparr>,
      \<lparr>expense_id = ''e2'', expense_user_id = ''u1'', expense_amount = 2000,
        category = ''Travel'', expense_description = ''bus'',
        expense_date = 19889, expense_created_at = 0\<rparr>,
      \<lparr>expense_id = ''e3'', expense_user_id = ''u2'', expense_amount = 700,
        category = ''Other'', expense_description = '''',
        expense_date = 19889, expense_created_at = 0\<rparr>,
      \<lparr>expense_id = ''e4'', expense_user_id = ''u1'', expense_amount = 50,
        category = ''Other'', expense_description = '''',
        expense_date = 19860, expense_created_at = 0\<rparr>]"


definition expenses_saturdays :: "Expense list" where
  "expenses_saturdays =
     [\<lparr>expense_id = ''s1'', expense_user_id = ''u1'', expense_amount = 100,
        category = ''Shopping'', expense_description = ''last week'',
        expense_date = 19882, expense_created_at = 0\<rparr>,
      \<lparr>expense_id = ''s2'', expense_user_id = ''u1'', expense_amount = 200,
        category = ''Shopping'', expense_description = ''today'',
        expense_date = 19889, expense_created_at = 0\<rparr>]"

subsection \<open>The derived period\<close>

lemma setHours0_local:
  "Day (LocalTime tza (setHours0 tza d)) = Day (LocalTime tza d)"
  "TimeWithinDay (LocalTime tza (setHours0 tza d)) = 0"
  unfolding setHours0_def LocalTime_def UTC_def MakeTime_def
  using Day_MakeDate[of 0 "Day (d + tza)"] msPerDay_pos by simp_all

lemma WeekDay_range: "0 \<le> WeekDay t \<and> WeekDay t \<le> 6"
  unfolding WeekDay_def by simp

lemma LocalTime_add: "LocalTime tza (d + k) = LocalTime tza d + k"
  unfolding LocalTime_def by simp

lemma weekly_range:
  assumes "periodRange tza (Some b) now = (s, e)" and "period b = weekly"
  shows "getDay tza s = 0"
    and "Day (LocalTime tza s) = Day (LocalTime tza now) - getDay tza now"
    and "TimeWithinDay (LocalTime tza s) = 0"
    and "e = s + 6 * msPerDay"
proof -
  define s1 where "s1 = setDate tza now (getDate tza now - getDay tza now)"
  have s1: "s1 = now + (- getDay tza now) * msPerDay"
    unfolding s1_def using setDate_getDate[of tza now "- getDay tza now"] by simp
  have s: "s = setHours0 tza s1" and e: "e = setDate tza s (getDate tza s + 6)"
    using assms unfolding periodRange_def s1_def Let_def by auto
  show e6: "e = s + 6 * msPerDay" unfolding e by (rule setDate_getDate)
  show d: "Day (LocalTime tza s) = Day (LocalTime tza now) - getDay tza now"
    unfolding s setHours0_local s1 LocalTime_add Day_add_days by simp
  show "TimeWithinDay (LocalTime tza s) = 0"
    unfolding s by (rule setHours0_local)
  have "getDay tza s = (Day (LocalTime tza now) + 4 - (Day (LocalTime tza now) + 4) mod 7) mod 7"
    unfolding getDay_def WeekDay_def d by (simp add: algebra_simps)
  also have "\<dots> = 0" by (simp add: minus_mod_eq_mult_div)
  finally show "getDay tza s = 0" .
qed

lemma MakeDay_first:
  assumes "m = 0 \<or> m = 1 \<or> m = 2 \<or> m = 3 \<or> m = 4 \<or> m = 5 \<or> m = 6 \<or> m = 7
      \<or> m = 8 \<or> m = 9 \<or> m = 10 \<or> m = 11"
  shows "MakeDay y m 1 = DayFromYear y + MonthStart m (LeapOfYear y) + 1 - 1"
  using assms unfolding MakeDay_def Let_def by (elim disjE; simp)

lemma MakeDay_last:
  assumes "m = 0 \<or> m = 1 \<or> m = 2 \<or> m = 3 \<or> m = 4 \<or> m = 5 \<or> m = 6 \<or> m = 7
      \<or> m = 8 \<or> m = 9 \<or> m = 10 \<or> m = 11"
  shows "MakeDay y (m + 1) 0 = DayFromYear y + MonthStart m (LeapOfYear y) + DaysInMonth y m - 1"
  using assms DayFromYear_Suc[of y] DaysInYear_Leap[of y]
  unfolding MakeDay_def Let_def DaysInMonth_def MonthStart_def
  by (elim disjE; simp)

lemma local_midnight:
  "Day (LocalTime tza (UTC tza (MakeDate day (MakeTime 0 0 0 0)))) = day"
  "TimeWithinDay (LocalTime tza (UTC tza (MakeDate day (MakeTime 0 0 0 0)))) = 0"
  unfolding LocalTime_def UTC_def MakeTime_def
  using Day_MakeDate[of 0 day] msPerDay_pos by simp_all

lemma monthly_range:
  assumes r: "periodRange tza b now = (s, e)" and p: "map_option period b \<noteq> Some weekly"
    and y: "100 \<le> getFullYear tza now"
  shows "getFullYear tza s = getFullYear tza now \<and> getMonth tza s = getMonth tza now
           \<and> getDate tza s = 1 \<and> TimeWithinDay (LocalTime tza s) = 0"
    and "getFullYear tza e = getFullYear tza now \<and> getMonth tza e = getMonth tza now
           \<and> getDate tza e = DaysInMonth (getFullYear tza now) (getMonth tza now)
           \<and> TimeWithinDay (LocalTime tza e) = 0"
proof -
  define Y where "Y = getFullYear tza now"
  define M where "M = getMonth tza now"
  have mc: "M = 0 \<or> M = 1 \<or> M = 2 \<or> M = 3 \<or> M = 4 \<or> M = 5 \<or> M = 6 \<or> M = 7
      \<or> M = 8 \<or> M = 9 \<or> M = 10 \<or> M = 11"
    unfolding M_def getMonth_def by (rule MonthFromTime_cases)
  have q: "99 < Y" using y unfolding Y_def by simp
  have "periodRange tza b now = (newDate tza Y M 1, newDate tza Y (M + 1) 0)"
    unfolding periodRange_def Y_def M_def by (rule if_not_P[OF p])
  with r have s0: "s = newDate tza Y M 1" and e0: "e = newDate tza Y (M + 1) 0"
    by simp_all
  have s: "s = UTC tza (MakeDate (MakeDay Y M 1) (MakeTime 0 0 0 0))"
    unfolding s0 newDate_def Let_def using q by auto
  have e: "e = UTC tza (MakeDate (MakeDay Y (M + 1) 0) (MakeTime 0 0 0 0))"
    unfolding e0 newDate_def Let_def using q by auto
  have ds: "Day (LocalTime tza s) = DayFromYear Y + MonthStart M (LeapOfYear Y) + 1 - 1"
    unfolding s local_midnight using MakeDay_first[OF mc] .
  have de: "Day (LocalTime tza e)
      = DayFromYear Y + MonthStart M (LeapOfYear Y) + DaysInMonth Y M - 1"
    unfolding e local_midnight using MakeDay_last[OF mc] .
  have d1: "1 \<le> DaysInMonth Y M" using DaysInMonth_ge[of Y M] by simp
  show "getFullYear tza s = getFullYear tza now \<and> getMonth tza s = getMonth tza now
           \<and> getDate tza s = 1 \<and> TimeWithinDay (LocalTime tza s) = 0"
    unfolding getFullYear_def getMonth_def getDate_def
    using civil_of_day[OF mc _ d1 ds] local_midnight(2)[of tza "MakeDay Y M 1"]
    unfolding Y_def M_def getFullYear_def getMonth_def s by simp
  show "getFullYear tza e = getFullYear tza now \<and> getMonth tza e = getMonth tza now
           \<and> getDate tza e = DaysInMonth (getFullYear tza now) (getMonth tza now)
           \<and> TimeWithinDay (LocalTime tza e) = 0"
    unfolding getFullYear_def getMonth_def getDate_def
    using civil_of_day[OF mc d1 _ de] local_midnight(2)[of tza "MakeDay Y (M + 1) 0"]
    unfolding Y_def M_def getFullYear_def getMonth_def e by simp
qed



lemma weekly_iso_start:
  assumes r: "periodRange tza (Some b) now = (s, e)" and w: "period b = weekly"
    and z: "0 < tza" "tza \<le> msPerDay"
  shows "WeekDay (toISODate s * msPerDay) = 6"
    and "toISODate s = Day (LocalTime tza s) - 1"
proof -
  define D where "D = Day (LocalTime tza s)"
  have "LocalTime tza s = D * msPerDay"
    using Day_TimeWithinDay[of "LocalTime tza s"] weekly_range(3)[OF r w] unfolding D_def by simp
  then have s: "s = msPerDay * (D - 1) + (msPerDay - tza)"
    unfolding LocalTime_def by (simp add: algebra_simps)
  have "s div msPerDay = D - 1"
    using z by (intro int_div_pos_eq[OF s]) simp_all
  then show iso: "toISODate s = Day (LocalTime tza s) - 1"
    unfolding toISODate_def Day_def D_def .
  have "(D + 4) mod 7 = 0"
    using weekly_range(1)[OF r w] unfolding getDay_def WeekDay_def D_def .
  then have "(D - 1 + 4) mod 7 = 6" by presburger
  then show "WeekDay (toISODate s * msPerDay) = 6"
    unfolding iso D_def[symmetric] WeekDay_def Day_of_date .
qed

text \<open>
  The two \<^verbatim>\<open>Date\<close> objects that \<^verbatim>\<open>getBudgetSummary\<close> derives, read in the
  server's local time, for every local offset. Weekly: the start is a Sunday
  (\<open>getDay = 0\<close>), namely the local day of \<open>now\<close> minus its weekday index, at local
  midnight, and the end is exactly six days later. Monthly: the start is day 1 of the
  month and year of \<open>now\<close> and the end is the last day (\<open>DaysInMonth\<close>) of that same
  month, both at local midnight, whatever the weekday of \<open>now\<close>. The constructor
  \<^verbatim>\<open>new Date(year, ...)\<close> reads years 0 to 99 as 1900 + year, so the monthly part is
  stated for clock readings from the year 100 on.
\<close>

lemma period_derivation:
  "(period b = weekly \<longrightarrow>
      (case periodRange tza (Some b) now of (s, e) \<Rightarrow>
         getDay tza s = 0
         \<and> Day (LocalTime tza s) = Day (LocalTime tza now) - getDay tza now
         \<and> TimeWithinDay (LocalTime tza s) = 0
         \<and> e = s + 6 * msPerDay))
   \<and> (period b = monthly \<and> 100 \<le> getFullYear tza now \<longrightarrow>
      (case periodRange tza (Some b) now of (s, e) \<Rightarrow>
         getFullYear tza s = getFullYear tza now \<and> getMonth tza s = getMonth tza now
         \<and> getDate tza s = 1 \<and> TimeWithinDay (LocalTime tza s) = 0
         \<and> getFullYear tza e = getFullYear tza now \<and> getMonth tza e = getMonth tza now
         \<and> getDate tza e = DaysInMonth (getFullYear tza now) (getMonth tza now)
         \<and> TimeWithinDay (LocalTime tza e) = 0))"
proof (intro conjI impI)
  assume w: "period b = weekly"
  obtain s e where r: "periodRange tza (Some b) now = (s, e)" by (cases "periodRange tza (Some b) now")
  show "case periodRange tza (Some b) now of (s, e) \<Rightarrow>
         getDay tza s = 0
         \<and> Day (LocalTime tza s) = Day (LocalTime tza now) - getDay tza now
         \<and> TimeWithinDay (LocalTime tza s) = 0
         \<and> e = s + 6 * msPerDay"
    unfolding r using weekly_range[OF r w] by simp
next
  assume m: "period b = monthly \<and> 100 \<le> getFullYear tza now"
  obtain s e where r: "periodRange tza (Some b) now = (s, e)" by (cases "periodRange tza (Some b) now")
  have p: "map_option period (Some b) \<noteq> Some weekly" using m by simp
  show "case periodRange tza (Some b) now of (s, e) \<Rightarrow>
         getFullYear tza s = getFullYear tza now \<and> getMonth tza s = getMonth tza now
         \<and> getDate tza s = 1 \<and> TimeWithinDay (LocalTime tza s) = 0
         \<and> getFullYear tza e = getFullYear tza now \<and> getMonth tza e = getMonth tza now
         \<and> getDate tza e = DaysInMonth (getFullYear tza now) (getMonth tza now)
         \<and> TimeWithinDay (LocalTime tza e) = 0"
    unfolding r using monthly_range[OF r p] m by simp
qed

lemma period_derivation_witness:
  "period budget_w = weekly
   \<and> (case periodRange 28800000 (Some budget_w) 1718452800000 of (s, e) \<Rightarrow>
         getDay 28800000 s = 0
         \<and> Day (LocalTime 28800000 s)
             = Day (LocalTime 28800000 1718452800000) - getDay 28800000 1718452800000
         \<and> TimeWithinDay (LocalTime 28800000 s) = 0
         \<and> e = s + 6 * msPerDay)
   \<and> period budget_m = monthly \<and> 100 \<le> getFullYear 28800000 1718452800000
   \<and> (case periodRange 28800000 (Some budget_m) 1718452800000 of (s, e) \<Rightarrow>
         getFullYear 28800000 s = getFullYear 28800000 1718452800000
         \<and> getMonth 28800000 s = getMonth 28800000 1718452800000
         \<and> getDate 28800000 s = 1 \<and> TimeWithinDay (LocalTime 28800000 s) = 0
         \<and> getFullYear 28800000 e = getFullYear 28800000 1718452800000
         \<and> getMonth 28800000 e = getMonth 28800000 1718452800000
         \<and> getDate 28800000 e
             = DaysInMonth (getFullYear 28800000 1718452800000)
                 (getMonth 28800000 1718452800000)
         \<and> TimeWithinDay (LocalTime 28800000 e) = 0)"
proof -
  have w: "period budget_w = weekly" by (simp add: budget_w_def)
  have m: "period budget_m = monthly" by (simp add: budget_m_def)
  have y: "100 \<le> getFullYear 28800000 1718452800000" by code_simp
  note d1 = period_derivation[of budget_w 28800000 1718452800000, THEN conjunct1, THEN mp, OF w]
  note d2 = period_derivation[of budget_m 28800000 1718452800000, THEN conjunct2, THEN mp,
      OF conjI[OF m y]]
  show ?thesis
    by (rule conjI[OF w conjI[OF d1 conjI[OF m conjI[OF y d2]]]])
qed

lemma period_examples:
  "periodRange 0 (Some budget_w) 1718452800000 = (1717891200000, 1718409600000)"
  "periodRange 0 (Some budget_m) 1718452800000 = (1717200000000, 1719705600000)"
  "periodRange 0 None 1718452800000 = (1717200000000, 1719705600000)"
  by code_simp+

lemma iso_date_utc: "toISODate d = Day (LocalTime 0 d)"
  unfolding toISODate_def LocalTime_def by simp

text \<open>
  Claim C5 says that the derived accounting period starts on a Sunday and ends six days
  later (weekly), or runs from the first to the last day of the current month (monthly).
  The two \<^verbatim>\<open>Date\<close> objects are that period in the server's local time
  (\<open>period_derivation\<close>). The period that the accounting uses is the pair of ISO dates
  sent to the store, and \<^verbatim>\<open>toISOString\<close> gives the date in UTC: on a server east of
  Greenwich the ISO date of a local midnight is the day before, so that the weekly start
  is a Saturday for every offset above 0 and up to 24 hours (\<open>weekly_iso_start\<close>).
  With the server at UTC+8 and the clock at 2024-06-15T12:00:00Z, a Saturday evening in
  local time, the weekly range sent to the store is Saturday 2024-06-08 to Friday
  2024-06-14: an expense of the Saturday before is counted and an expense of today is
  not. The monthly range there is 2024-05-31 to 2024-06-29. The comment in the source
  reads ``Start from beginning of current week (Sunday)''.
\<close>

theorem period_iso_dates_utc8:
  "periodRange 28800000 (Some budget_w) 1718452800000 = (1717862400000, 1718380800000)
   \<and> getDay 28800000 1717862400000 = 0
   \<and> Day (LocalTime 28800000 1717862400000) = 19883
   \<and> toISODate 1717862400000 = 19882
   \<and> WeekDay (19882 * msPerDay) = 6
   \<and> toISODate 1718380800000 = 19888
   \<and> Day (LocalTime 28800000 1718452800000) = 19889
   \<and> getBudgetSummary 28800000 [budget_w] expenses_saturdays (Some ''u1'') 1718452800000
       = \<lparr>budget = Some budget_w, totalSpent = 100, remaining = 4900, percentageUsed = 2,
           expenses = [expenses_saturdays ! 0]\<rparr>
   \<and> periodRange 28800000 (Some budget_m) 1718452800000 = (1717171200000, 1719676800000)
   \<and> toISODate 1717171200000 = 19874
   \<and> MonthFromTime (19874 * msPerDay) = 4 \<and> DateFromTime (19874 * msPerDay) = 31
   \<and> toISODate 1719676800000 = 19903
   \<and> MonthFromTime (19903 * msPerDay) = 5 \<and> DateFromTime (19903 * msPerDay) = 29"
  by code_simp

subsection \<open>Totals\<close>


lemma sum_list_insort_key:
  "sum_list (map f (insort_key k x xs)) = f x + sum_list (map f xs)" for f :: "'a \<Rightarrow> real"
  by (induction xs) simp_all

lemma sum_list_sort_key:
  "sum_list (map f (sort_key k xs)) = sum_list (map f xs)" for f :: "'a \<Rightarrow> real"
  by (induction xs) (simp_all add: sum_list_insort_key)



lemma periodExpenses_sum:
  "sum_list (map expense_amount (periodExpenses tbl u s e))
     = sum_list (map expense_amount
         (filter (\<lambda>x. expense_user_id x = u \<and> toISODate s \<le> expense_date x
            \<and> expense_date x \<le> toISODate e) tbl))"
  unfolding periodExpenses_def by (simp add: rev_map[symmetric] sum_list_sort_key)

text \<open>
  Claim C6. In every summary that \<^verbatim>\<open>getBudgetSummary\<close> returns, with \<open>budgetAmount\<close>
  the amount of the returned budget (0 when there is none):
  \<open>remaining = max 0 (budgetAmount - totalSpent)\<close>, and \<open>percentageUsed\<close> is
  \<open>min 100 (totalSpent / budgetAmount * 100)\<close> when \<open>budgetAmount > 0\<close> and 0 otherwise.
  Hence, when the budget amount and the total spent are not negative,
  \<open>percentageUsed\<close> lies in [0, 100] and \<open>remaining\<close> is not negative.
\<close>

theorem summary_formulas:
  "(let r = getBudgetSummary tza bt et user now;
        budgetAmount = (case budget r of Some b \<Rightarrow> budget_amount b | None \<Rightarrow> 0)
    in remaining r = max 0 (budgetAmount - totalSpent r)
       \<and> percentageUsed r
           = (if budgetAmount > 0 then min 100 (totalSpent r / budgetAmount * 100) else 0)
       \<and> (0 \<le> budgetAmount \<and> 0 \<le> totalSpent r \<longrightarrow>
            0 \<le> percentageUsed r \<and> percentageUsed r \<le> 100 \<and> 0 \<le> remaining r))"
proof (cases user)
  case None
  then show ?thesis by (simp add: getBudgetSummary_def)
next
  case (Some u)
  define b where "b = single (filter (\<lambda>b. budget_user_id b = u) bt)"
  define B where "B = (case b of Some x \<Rightarrow> budget_amount x | None \<Rightarrow> (0::real))"
  obtain s e where se: "periodRange tza b now = (s, e)" by (cases "periodRange tza b now")
  define T where "T = foldl (\<lambda>sum exp. sum + expense_amount exp) 0 (periodExpenses et u s e)"
  have r: "getBudgetSummary tza bt et user now =
      \<lparr>budget = b, totalSpent = T, remaining = max 0 (B - T),
       percentageUsed = min (if B > 0 then (T / B) * 100 else 0) 100,
       expenses = periodExpenses et u s e\<rparr>"
    unfolding getBudgetSummary_def Some Let_def option.case b_def[symmetric] se
    by (simp add: T_def B_def)
  have "0 \<le> T / B * 100" if "0 \<le> B" "0 \<le> T" using that by simp
  then show ?thesis
    unfolding r Let_def by (simp add: B_def[symmetric] min.commute)
qed

theorem summary_formulas_witness:
  "(let r = getBudgetSummary 0 [budget_m] expenses_june (Some ''u1'') 1718452800000;
        budgetAmount = (case budget r of Some b \<Rightarrow> budget_amount b | None \<Rightarrow> 0)
    in 0 \<le> budgetAmount \<and> 0 \<le> totalSpent r
       \<and> budgetAmount = 5000 \<and> totalSpent r = 3000
       \<and> remaining r = 2000 \<and> percentageUsed r = 60
       \<and> remaining r = max 0 (budgetAmount - totalSpent r)
       \<and> percentageUsed r = min 100 (totalSpent r / budgetAmount * 100)
       \<and> 0 \<le> percentageUsed r \<and> percentageUsed r \<le> 100 \<and> 0 \<le> remaining r)"
proof -
  have ev: "getBudgetSummary 0 [budget_m] expenses_june (Some ''u1'') 1718452800000
     = \<lparr>budget = Some budget_m, totalSpent = 3000, remaining = 2000, percentageUsed = 60,
         expenses = [expenses_june ! 1, expenses_june ! 0]\<rparr>"
    by code_simp
  show ?thesis
    using summary_formulas[of 0 "[budget_m]" expenses_june "Some ''u1''" 1718452800000]
    unfolding ev by (simp add: budget_m_def)
qed




section \<open>Premium workflow\<close>

text \<open>
  The server module \<^verbatim>\<open>premium.ts\<close> works on the tables \<^verbatim>\<open>profiles\<close> and
  \<^verbatim>\<open>premium_requests\<close> and on the storage bucket \<^verbatim>\<open>payments\<close>. A timestamp is the
  clock reading in milliseconds.
\<close>

datatype status = pending | approved | rejected

datatype premium_type = free | lifetime

record PremiumProfile =
  profile_id :: string
  full_name :: "string option"
  is_premium :: bool
  premium_type :: premium_type
  premium_since :: "int option"
  profile_created_at :: int

record PremiumRequest =
  request_id :: string
  request_user_id :: string
  status :: status
  payment_proof_url :: string
  amount_paid :: real
  request_created_at :: int
  reviewed_at :: "int option"
  reviewed_by :: "string option"

record File =
  file_name :: string
  file_bytes :: string

record store =
  profiles :: "PremiumProfile list"
  premium_requests :: "PremiumRequest list"
  payments :: "(string \<times> File) list"

text \<open>
  Every function of the module returns either \<^verbatim>\<open>{ error: message }\<close> or
  \<^verbatim>\<open>{ success: true }\<close>.
\<close>

datatype result = Error string | Success

text \<open>
  Whether a call to the store or to the storage service fails is not decided by the
  program. Each call whose error the source inspects has a flag here that says whether it
  fails at this invocation; a failed write leaves the store as it was.
\<close>

record outages =
  upload_fails :: bool
  insert_fails :: bool
  select_fails :: bool
  update_fails :: bool
  profile_update_fails :: bool

subsection \<open>Row-level security\<close>

text \<open>
  The policies of \<^verbatim>\<open>schema.sql\<close> decide which rows a statement of the caller \<open>u\<close>
  sees and changes. A row that a policy hides from an \<^verbatim>\<open>UPDATE\<close> is skipped without an
  error, so such an update reports success and changes nothing.
  \<^item> ``Admins can view all premium requests'' and ``Admins can update premium requests'':
    the caller has a profile with \<^verbatim>\<open>is_premium = TRUE\<close> (\<open>is_admin\<close>).
  \<^item> ``Users can view own premium requests'': \<^verbatim>\<open>auth.uid() = user_id\<close>.
  \<^item> ``Users can update own profile'': \<^verbatim>\<open>auth.uid() = id\<close>.
\<close>

definition is_admin :: "store \<Rightarrow> string \<Rightarrow> bool" where
  "is_admin db u = list_ex (\<lambda>p. profile_id p = u \<and> is_premium p) (profiles db)"

definition can_select_request :: "store \<Rightarrow> string \<Rightarrow> PremiumRequest \<Rightarrow> bool" where
  "can_select_request db u r = (request_user_id r = u \<or> is_admin db u)"

definition can_update_request :: "store \<Rightarrow> string \<Rightarrow> PremiumRequest \<Rightarrow> bool" where
  "can_update_request db u r = is_admin db u"

definition can_update_profile :: "string \<Rightarrow> PremiumProfile \<Rightarrow> bool" where
  "can_update_profile u p = (profile_id p = u)"

definition update_requests ::
  "store \<Rightarrow> string \<Rightarrow> string \<Rightarrow> (PremiumRequest \<Rightarrow> PremiumRequest) \<Rightarrow> store" where
  "update_requests db u requestId f =
     db\<lparr>premium_requests :=
          map (\<lambda>r. if request_id r = requestId \<and> can_update_request db u r then f r else r)
            (premium_requests db)\<rparr>"

definition update_profiles ::
  "store \<Rightarrow> string \<Rightarrow> string \<Rightarrow> (PremiumProfile \<Rightarrow> PremiumProfile) \<Rightarrow> store" where
  "update_profiles db u targetId f =
     db\<lparr>profiles :=
          map (\<lambda>p. if profile_id p = targetId \<and> can_update_profile u p then f p else p)
            (profiles db)\<rparr>"

subsection \<open>The operations\<close>

text \<open>
  \<^verbatim>\<open>name.split(".")\<close>: the pieces of a string between the occurrences of a character,
  never an empty list, so that \<^verbatim>\<open>.pop()\<close> is the last piece.
\<close>

fun split_on :: "char \<Rightarrow> string \<Rightarrow> string list" where
  "split_on c [] = [[]]"
| "split_on c (x # xs) =
     (if x = c then [] # split_on c xs
      else (case split_on c xs of p # ps \<Rightarrow> (x # p) # ps | [] \<Rightarrow> [[x]]))"

text \<open>
  \<^verbatim>\<open>submitPremiumRequest\<close>. Outside the repository and passed in: \<open>str\<close>, the decimal
  text of \<^verbatim>\<open>Date.now()\<close> in the file path; \<open>getPublicUrl\<close>, the URL that the storage
  service gives a path; \<open>new_id\<close>, the identifier that the store generates for the row.
  \<open>paymentProof\<close> is the entry \<^verbatim>\<open>payment_proof\<close> of the form data, \<open>None\<close> when the
  form has none.
\<close>

definition submitPremiumRequest ::
  "outages \<Rightarrow> (int \<Rightarrow> string) \<Rightarrow> (string \<Rightarrow> string) \<Rightarrow> string \<Rightarrow> store \<Rightarrow> string option
     \<Rightarrow> int \<Rightarrow> File option \<Rightarrow> result \<times> store" where
  "submitPremiumRequest out str getPublicUrl new_id db user now paymentProof =
     (case user of
        None \<Rightarrow> (Error ''Not authenticated'', db)
      | Some u \<Rightarrow>
          (case paymentProof of
             None \<Rightarrow> (Error ''Payment proof is required'', db)
           | Some proof \<Rightarrow>
               (let fileExt = last (split_on CHR ''.'' (file_name proof));
                    fileName = ''payment_proofs/'' @ u @ ''/'' @ str now @ ''.'' @ fileExt
                in if upload_fails out then (Error ''Failed to upload payment proof'', db)
                   else
                     (let db1 = db\<lparr>payments := payments db @ [(fileName, proof)]\<rparr>;
                          publicUrl = getPublicUrl fileName
                      in if insert_fails out
                         then (Error ''Failed to submit premium request'', db1)
                         else (Success,
                               db1\<lparr>premium_requests := premium_requests db1 @
                                  [\<lparr>request_id = new_id, request_user_id = u,
                                    status = pending, payment_proof_url = publicUrl,
                                    amount_paid = 199, request_created_at = now,
                                    reviewed_at = None, reviewed_by = None\<rparr>]\<rparr>)))))"

text \<open>
  \<^verbatim>\<open>approvePremiumRequest\<close> and \<^verbatim>\<open>rejectPremiumRequest\<close>. The source reads the clock
  once for \<^verbatim>\<open>reviewed_at\<close> and once more for \<^verbatim>\<open>premium_since\<close>; the model gives both
  the reading \<open>now\<close>.
\<close>

definition approvePremiumRequest ::
  "outages \<Rightarrow> store \<Rightarrow> string option \<Rightarrow> int \<Rightarrow> string \<Rightarrow> result \<times> store" where
  "approvePremiumRequest out db user now requestId =
     (case user of
        None \<Rightarrow> (Error ''Not authenticated'', db)
      | Some u \<Rightarrow>
          (case (if select_fails out then None
                 else single (filter (\<lambda>r. request_id r = requestId \<and> can_select_request db u r)
                               (premium_requests db))) of
             None \<Rightarrow> (Error ''Request not found'', db)
           | Some request \<Rightarrow>
               if update_fails out then (Error ''Failed to approve request'', db)
               else
                 (let db1 = update_requests db u requestId
                       (\<lambda>r. r\<lparr>status := approved, reviewed_by := Some u, reviewed_at := Some now\<rparr>)
                  in if profile_update_fails out then (Error ''Failed to upgrade user'', db1)
                     else (Success,
                           update_profiles db1 u (request_user_id request)
                             (\<lambda>p. p\<lparr>is_premium := True, premium_type := lifetime,
                                    premium_since := Some now\<rparr>)))))"

definition rejectPremiumRequest ::
  "outages \<Rightarrow> store \<Rightarrow> string option \<Rightarrow> int \<Rightarrow> string \<Rightarrow> result \<times> store" where
  "rejectPremiumRequest out db user now requestId =
     (case user of
        None \<Rightarrow> (Error ''Not authenticated'', db)
      | Some u \<Rightarrow>
          if update_fails out then (Error ''Failed to reject request'', db)
          else (Success,
                update_requests db u requestId
                  (\<lambda>r. r\<lparr>status := rejected, reviewed_by := Some u, reviewed_at := Some now\<rparr>)))"

subsection \<open>Example data\<close>

definition no_outage :: outages where
  "no_outage = \<lparr>upload_fails = False, insert_fails = False, select_fails = False,
     update_fails = False, profile_update_fails = False\<rparr>"

definition upload_outage :: outages where
  "upload_outage = no_outage\<lparr>upload_fails := True\<rparr>"

definition profile_admin :: PremiumProfile where
  "profile_admin = \<lparr>profile_id = ''a1'', full_name = Some ''Ana'', is_premium = True,
     premium_type = lifetime, premium_since = Some 100, profile_created_at = 50\<rparr>"

definition profile_user :: PremiumProfile where
  "profile_user = \<lparr>profile_id = ''u1'', full_name = None, is_premium = False,
     premium_type = free, premium_since = None, profile_created_at = 60\<rparr>"

definition request_pending :: PremiumRequest where
  "request_pending = \<lparr>request_id = ''r1'', request_user_id = ''u1'', status = pending,
     payment_proof_url = ''https://files/payment_proofs/u1/70.png'', amount_paid = 199,
     request_created_at = 70, reviewed_at = None, reviewed_by = None\<rparr>"

definition request_rejected :: PremiumRequest where
  "request_rejected = request_pending\<lparr>status := rejected, reviewed_by := Some ''a0'',
     reviewed_at := Some 80\<rparr>"

definition db_pending :: store where
  "db_pending = \<lparr>profiles = [profile_admin, profile_user],
     premium_requests = [request_pending], payments = []\<rparr>"

definition db_rejected :: store where
  "db_rejected = \<lparr>profiles = [profile_admin, profile_user],
     premium_requests = [request_rejected], payments = []\<rparr>"

definition receipt :: File where
  "receipt = \<lparr>file_name = ''gcash.receipt.png'', file_bytes = ''...''\<rparr>"

subsection \<open>Properties of the review operations\<close>

lemma map_unchanged: "list_all (\<lambda>x. \<not> P x) xs \<Longrightarrow> map (\<lambda>x. if P x then f x else x) xs = xs"
  by (induction xs) simp_all

lemma filter_none: "list_all (\<lambda>x. \<not> P x) xs \<Longrightarrow> filter P xs = []"
  by (induction xs) simp_all

lemma update_requests_absent:
  assumes "list_all (\<lambda>r. request_id r \<noteq> requestId) (premium_requests db)"
  shows "update_requests db u requestId f = db"
proof -
  have "list_all (\<lambda>r. \<not> (request_id r = requestId \<and> can_update_request db u r))
      (premium_requests db)"
    using assms by (simp add: list_all_iff)
  then show ?thesis unfolding update_requests_def by (simp add: map_unchanged)
qed

lemma update_requests_not_admin:
  "\<not> is_admin db u \<Longrightarrow> update_requests db u requestId f = db"
  unfolding update_requests_def can_update_request_def by simp

lemma update_requests_admin:
  "is_admin db u \<Longrightarrow> premium_requests (update_requests db u requestId f)
     = map (\<lambda>r. if request_id r = requestId then f r else r) (premium_requests db)"
  unfolding update_requests_def can_update_request_def by simp

lemma premium_requests_update_profiles [simp]:
  "premium_requests (update_profiles db u t f) = premium_requests db"
  unfolding update_profiles_def by simp

lemma approve_not_admin_requests:
  assumes "\<not> is_admin db u"
  shows "premium_requests (snd (approvePremiumRequest out db (Some u) now requestId))
     = premium_requests db"
  unfolding approvePremiumRequest_def
  by (simp add: Let_def update_requests_not_admin[OF assms] split: option.splits)

text \<open>
  Claim C1 says that a request whose status has left \<open>pending\<close> never changes again.
  Neither operation reads the current status: an administrator who approves a request
  that was rejected before turns it into an approved one and replaces the reviewer and
  the review time.
\<close>

theorem terminal_status_counterexample:
  "status request_rejected = rejected
   \<and> reviewed_by request_rejected = Some ''a0''
   \<and> approvePremiumRequest no_outage db_rejected (Some ''a1'') 1000 ''r1''
       = (Success,
          db_rejected\<lparr>premium_requests :=
            [request_rejected\<lparr>status := approved, reviewed_by := Some ''a1'',
               reviewed_at := Some 1000\<rparr>]\<rparr>)"
  by code_simp

text \<open>
  Claim C1, amended. For a caller whose profile is premium and a store whose calls do not
  fail, \<^verbatim>\<open>approvePremiumRequest\<close> on the identifier of an existing request sets that
  request to \<open>approved\<close>, and \<^verbatim>\<open>rejectPremiumRequest\<close> sets it to \<open>rejected\<close>; both
  overwrite \<open>reviewed_by\<close> and \<open>reviewed_at\<close> with the caller and the current time,
  whatever the status was before, and leave the requests with other identifiers as they
  were.
\<close>

theorem review_overwrites:
  assumes adm: "is_admin db u" and ok: "\<not> select_fails out" "\<not> update_fails out"
    and ex: "filter (\<lambda>r. request_id r = requestId) (premium_requests db) = [request]"
  shows "premium_requests (snd (approvePremiumRequest out db (Some u) now requestId))
           = map (\<lambda>r. if request_id r = requestId
                       then r\<lparr>status := approved, reviewed_by := Some u, reviewed_at := Some now\<rparr>
                       else r) (premium_requests db)
       \<and> premium_requests (snd (rejectPremiumRequest out db (Some u) now requestId))
           = map (\<lambda>r. if request_id r = requestId
                       then r\<lparr>status := rejected, reviewed_by := Some u, reviewed_at := Some now\<rparr>
                       else r) (premium_requests db)"
proof -
  have "filter (\<lambda>r. request_id r = requestId \<and> can_select_request db u r) (premium_requests db)
      = [request]"
    using ex adm unfolding can_select_request_def by simp
  then have s: "single (filter (\<lambda>r. request_id r = requestId \<and> can_select_request db u r)
      (premium_requests db)) = Some request"
    by (simp add: single_def)
  have a: "premium_requests (snd (approvePremiumRequest out db (Some u) now requestId))
           = map (\<lambda>r. if request_id r = requestId
                       then r\<lparr>status := approved, reviewed_by := Some u, reviewed_at := Some now\<rparr>
                       else r) (premium_requests db)"
    unfolding approvePremiumRequest_def using ok s
    by (simp add: Let_def update_requests_admin[OF adm])
  have r: "premium_requests (snd (rejectPremiumRequest out db (Some u) now requestId))
           = map (\<lambda>r. if request_id r = requestId
                       then r\<lparr>status := rejected, reviewed_by := Some u, reviewed_at := Some now\<rparr>
                       else r) (premium_requests db)"
    unfolding rejectPremiumRequest_def using ok
    by (simp add: update_requests_admin[OF adm])
  from a r show ?thesis by (rule conjI)
qed

theorem review_overwrites_witness:
  "is_admin db_rejected ''a1'' \<and> \<not> select_fails no_outage \<and> \<not> update_fails no_outage
   \<and> filter (\<lambda>r. request_id r = ''r1'') (premium_requests db_rejected) = [request_rejected]
   \<and> map status (premium_requests db_rejected) = [rejected]
   \<and> map status (premium_requests
         (snd (approvePremiumRequest no_outage db_rejected (Some ''a1'') 1000 ''r1'')))
       = [approved]
   \<and> map reviewed_by (premium_requests
         (snd (approvePremiumRequest no_outage db_rejected (Some ''a1'') 1000 ''r1'')))
       = [Some ''a1'']
   \<and> map status (premium_requests
         (snd (rejectPremiumRequest no_outage db_rejected (Some ''a1'') 1000 ''r1'')))
       = [rejected]
   \<and> map reviewed_at (premium_requests
         (snd (rejectPremiumRequest no_outage db_rejected (Some ''a1'') 1000 ''r1'')))
       = [Some 1000]"
proof -
  have 1: "is_admin db_rejected ''a1''" by code_simp
  have 2: "\<not> select_fails no_outage" "\<not> update_fails no_outage"
    by (simp_all add: no_outage_def)
  have 3: "filter (\<lambda>r. request_id r = ''r1'') (premium_requests db_rejected) = [request_rejected]"
    by (simp add: db_rejected_def request_rejected_def request_pending_def)
  have 4: "premium_requests db_rejected = [request_rejected]"
    by (simp add: db_rejected_def)
  have 5: "request_id request_rejected = ''r1''" "status request_rejected = rejected"
    by (simp_all add: request_rejected_def request_pending_def)
  show ?thesis
    using review_overwrites[OF 1 2 3, of 1000] 1 2 3
    by (simp add: 4 5)
qed

text \<open>
  Claim C4 says that an approve call by a caller whose profile is not premium returns an
  error. The function has no check of the caller's profile (its sibling
  \<^verbatim>\<open>getPendingRequests\<close> has one). For a request of the caller's own the lookup
  succeeds, the update of the request is skipped by the update policy without an error,
  and the update of the profile, which is the caller's own, goes through: the call
  returns success, the request stays pending, and the caller's profile becomes premium.
  (For a caller who is not premium the requests are never changed:
  \<open>approve_not_admin_requests\<close>.)
\<close>

theorem approve_by_free_user:
  "\<not> is_premium profile_user
   \<and> approvePremiumRequest no_outage db_pending (Some ''u1'') 1000 ''r1''
       = (Success,
          db_pending\<lparr>profiles :=
            [profile_admin,
             profile_user\<lparr>is_premium := True, premium_type := lifetime,
               premium_since := Some 1000\<rparr>]\<rparr>)"
  by code_simp

text \<open>
  Claim C8. For a signed-in caller, \<^verbatim>\<open>submitPremiumRequest\<close> returns the validation
  error ``Payment proof is required'' when the form has no proof file and the upload error
  ``Failed to upload payment proof'' when the storage service fails, and in both cases the
  store is returned unchanged. The table of requests changes only on the path where a
  proof is present, the upload succeeded and the call returns success.
\<close>

theorem submit_failures:
  "(paymentProof = None \<longrightarrow>
      submitPremiumRequest out str getPublicUrl new_id db (Some u) now paymentProof
        = (Error ''Payment proof is required'', db))
   \<and> (paymentProof \<noteq> None \<and> upload_fails out \<longrightarrow>
      submitPremiumRequest out str getPublicUrl new_id db (Some u) now paymentProof
        = (Error ''Failed to upload payment proof'', db))
   \<and> (premium_requests
        (snd (submitPremiumRequest out str getPublicUrl new_id db user now paymentProof))
        \<noteq> premium_requests db \<longrightarrow>
      paymentProof \<noteq> None \<and> \<not> upload_fails out
      \<and> fst (submitPremiumRequest out str getPublicUrl new_id db user now paymentProof)
          = Success)"
  unfolding submitPremiumRequest_def
  by (auto simp: Let_def split: option.splits)

theorem submit_failures_witness:
  "submitPremiumRequest no_outage (\<lambda>n. ''1000'') (\<lambda>p. ''https://files/'' @ p) ''r2''
       db_pending (Some ''u1'') 1000 None
     = (Error ''Payment proof is required'', db_pending)
   \<and> Some receipt \<noteq> None \<and> upload_fails upload_outage
   \<and> submitPremiumRequest upload_outage (\<lambda>n. ''1000'') (\<lambda>p. ''https://files/'' @ p) ''r2''
       db_pending (Some ''u1'') 1000 (Some receipt)
     = (Error ''Failed to upload payment proof'', db_pending)
   \<and> premium_requests
        (snd (submitPremiumRequest no_outage (\<lambda>n. ''1000'') (\<lambda>p. ''https://files/'' @ p) ''r2''
          db_pending (Some ''u1'') 1000 (Some receipt)))
       \<noteq> premium_requests db_pending
   \<and> \<not> upload_fails no_outage
   \<and> fst (submitPremiumRequest no_outage (\<lambda>n. ''1000'') (\<lambda>p. ''https://files/'' @ p) ''r2''
          db_pending (Some ''u1'') 1000 (Some receipt)) = Success"
proof -
  have 1: "upload_fails upload_outage" by (simp add: upload_outage_def)
  have 2: "premium_requests
        (snd (submitPremiumRequest no_outage (\<lambda>n. ''1000'') (\<lambda>p. ''https://files/'' @ p) ''r2''
          db_pending (Some ''u1'') 1000 (Some receipt)))
       \<noteq> premium_requests db_pending"
    by (simp add: submitPremiumRequest_def no_outage_def Let_def db_pending_def)
  show ?thesis
    using submit_failures[of None no_outage "\<lambda>n. ''1000''" "\<lambda>p. ''https://files/'' @ p" "''r2''"
        db_pending "''u1''" 1000 "Some ''u1''"]
      submit_failures[of "Some receipt" upload_outage "\<lambda>n. ''1000''" "\<lambda>p. ''https://files/'' @ p"
        "''r2''" db_pending "''u1''" 1000 "Some ''u1''"]
      submit_failures[of "Some receipt" no_outage "\<lambda>n. ''1000''" "\<lambda>p. ''https://files/'' @ p"
        "''r2''" db_pending "''u1''" 1000 "Some ''u1''"]
      1 2
    by simp
qed

text \<open>
  Claim C10. For a signed-in caller and an identifier that no request has,
  \<^verbatim>\<open>rejectPremiumRequest\<close> reports success and leaves the store unchanged (its update
  matches no row; the update call itself does not fail), whereas
  \<^verbatim>\<open>approvePremiumRequest\<close> returns the error ``Request not found''.
\<close>

theorem review_missing_request:
  assumes "list_all (\<lambda>r. request_id r \<noteq> requestId) (premium_requests db)"
    and "\<not> update_fails out"
  shows "rejectPremiumRequest out db (Some u) now requestId = (Success, db)
       \<and> approvePremiumRequest out db (Some u) now requestId = (Error ''Request not found'', db)"
proof -
  have "list_all (\<lambda>r. \<not> (request_id r = requestId \<and> can_select_request db u r))
      (premium_requests db)"
    using assms(1) by (simp add: list_all_iff)
  then have "filter (\<lambda>r. request_id r = requestId \<and> can_select_request db u r)
      (premium_requests db) = []"
    by (rule filter_none)
  then have a: "approvePremiumRequest out db (Some u) now requestId
      = (Error ''Request not found'', db)"
    unfolding approvePremiumRequest_def by (simp add: single_def)
  have r: "rejectPremiumRequest out db (Some u) now requestId = (Success, db)"
    unfolding rejectPremiumRequest_def using assms(2)
    by (simp add: update_requests_absent[OF assms(1)])
  from r a show ?thesis by simp
qed

theorem review_missing_request_witness:
  "list_all (\<lambda>r. request_id r \<noteq> ''r9'') (premium_requests db_pending)
   \<and> \<not> update_fails no_outage
   \<and> rejectPremiumRequest no_outage db_pending (Some ''u1'') 1000 ''r9'' = (Success, db_pending)
   \<and> approvePremiumRequest no_outage db_pending (Some ''u1'') 1000 ''r9''
       = (Error ''Request not found'', db_pending)"
proof -
  have 1: "list_all (\<lambda>r. request_id r \<noteq> ''r9'') (premium_requests db_pending)"
    by (simp add: db_pending_def request_pending_def)
  have 2: "\<not> update_fails no_outage" by (simp add: no_outage_def)
  show ?thesis
    using review_missing_request[OF 1 2, of "''u1''" 1000] 1 2 by simp
qed

section \<open>The daily spending series\<close>

text \<open>
  \<^verbatim>\<open>getSpendingOverTime(days)\<close> of the budget API. The source reads the clock twice,
  first for \<^verbatim>\<open>endDate\<close> and then for \<^verbatim>\<open>startDate\<close>; \<open>clock1\<close> and \<open>clock2\<close> are
  the two readings. \<open>query_fails\<close> says whether the query for the expenses returns an
  error.
\<close>

record SpendingData =
  date :: int
  amount :: real

text \<open>
  The object \<^verbatim>\<open>dailyTotals\<close>, from the text of a date to the sum of that day, filled in
  the order of the rows. \<^verbatim>\<open>dailyTotals[date] || 0\<close> is 0 for a missing key.
\<close>

definition dailyTotals :: "Expense list \<Rightarrow> (int \<Rightarrow> real option)" where
  "dailyTotals data =
     foldl (\<lambda>totals expense.
              totals(expense_date expense \<mapsto>
                (case totals (expense_date expense) of None \<Rightarrow> 0 | Some v \<Rightarrow> v)
                  + expense_amount expense))
       Map.empty data"

text \<open>
  The \<^verbatim>\<open>while\<close> loop that fills the result: it compares the two time values and moves
  \<^verbatim>\<open>currentDate\<close> by one day with \<^verbatim>\<open>setDate(getDate() + 1)\<close>. It terminates because
  that step adds a full day to the time value (\<open>setDate_getDate\<close>).
\<close>

function spendingLoop ::
  "int \<Rightarrow> (int \<Rightarrow> real option) \<Rightarrow> date \<Rightarrow> date \<Rightarrow> SpendingData list" where
  "spendingLoop tza totals endDate currentDate =
     (if currentDate \<le> endDate then
        \<lparr>date = toISODate currentDate,
         amount = (case totals (toISODate currentDate) of None \<Rightarrow> 0 | Some v \<Rightarrow> v)\<rparr>
        # spendingLoop tza totals endDate (setDate tza currentDate (getDate tza currentDate + 1))
      else [])"
  by pat_completeness auto
termination
proof (relation "measure (\<lambda>(tza, totals, endDate, currentDate). nat (endDate - currentDate + 1))")
  show "wf (measure (\<lambda>(tza, totals, endDate, currentDate). nat (endDate - currentDate + 1)))"
    by simp
next
  fix tza :: int and totals :: "int \<Rightarrow> real option" and endDate currentDate :: int
  assume "currentDate \<le> endDate"
  moreover have "setDate tza currentDate (getDate tza currentDate + 1) = currentDate + msPerDay"
    using setDate_getDate[of tza currentDate 1] by simp
  ultimately show "((tza, totals, endDate, setDate tza currentDate (getDate tza currentDate + 1)),
           (tza, totals, endDate, currentDate))
          \<in> measure (\<lambda>(tza, totals, endDate, currentDate). nat (endDate - currentDate + 1))"
    using msPerDay_pos by simp
qed

declare spendingLoop.simps [simp del]

definition getSpendingOverTime ::
  "int \<Rightarrow> Expense list \<Rightarrow> string option \<Rightarrow> date \<Rightarrow> date \<Rightarrow> bool \<Rightarrow> int \<Rightarrow> SpendingData list" where
  "getSpendingOverTime tza expenses_tbl user clock1 clock2 query_fails days =
     (case user of
        None \<Rightarrow> []
      | Some u \<Rightarrow>
          (let endDate = clock1;
               startDate = setDate tza clock2 (getDate tza endDate - days)
           in if query_fails then []
              else
                (let data = sort_key expense_date
                       (filter (\<lambda>e. expense_user_id e = u
                                  \<and> toISODate startDate \<le> expense_date e
                                  \<and> expense_date e \<le> toISODate endDate) expenses_tbl)
                 in spendingLoop tza (dailyTotals data) endDate startDate)))"

lemma setDate_next: "setDate tza d (getDate tza d + 1) = d + msPerDay"
  using setDate_getDate[of tza d 1] by simp

lemma spendingLoop_length:
  "length (spendingLoop tza totals endDate currentDate)
     = (if currentDate \<le> endDate then nat ((endDate - currentDate) div msPerDay) + 1 else 0)"
proof (induction tza totals endDate currentDate rule: spendingLoop.induct)
  case (1 tza totals endDate currentDate)
  show ?case
  proof (cases "currentDate \<le> endDate")
    case False
    then show ?thesis by (subst spendingLoop.simps) simp
  next
    case True
    note ih = 1[OF True, unfolded setDate_next]
    have l: "length (spendingLoop tza totals endDate currentDate)
        = 1 + length (spendingLoop tza totals endDate (currentDate + msPerDay))"
      using True by (subst spendingLoop.simps) (simp add: setDate_next)
    show ?thesis
    proof (cases "currentDate + msPerDay \<le> endDate")
      case True
      have "(endDate - currentDate) div msPerDay
          = (endDate - (currentDate + msPerDay)) div msPerDay + 1"
      proof -
        have "endDate - currentDate = (endDate - (currentDate + msPerDay)) + msPerDay" by simp
        then show ?thesis using msPerDay_pos by (metis div_add_self2 less_irrefl)
      qed
      moreover have "0 \<le> (endDate - (currentDate + msPerDay)) div msPerDay"
        using True msPerDay_pos by (simp add: pos_imp_zdiv_nonneg_iff)
      ultimately show ?thesis using ih l True \<open>currentDate \<le> endDate\<close> by simp
    next
      case False
      then have "(endDate - currentDate) div msPerDay = 0"
        using \<open>currentDate \<le> endDate\<close> by (simp add: div_pos_pos_trivial)
      then show ?thesis using ih l False \<open>currentDate \<le> endDate\<close> by simp
    qed
  qed
qed

lemma spending_series_same_instant:
  assumes "0 \<le> days"
  shows "length (getSpendingOverTime tza tbl (Some u) clock clock False days) = nat days + 1"
proof -
  have s: "setDate tza clock (getDate tza clock - days) = clock + (- days) * msPerDay"
    using setDate_getDate[of tza clock "- days"] by simp
  have le: "clock + (- days) * msPerDay \<le> clock"
    using assms msPerDay_pos by (simp add: mult_nonneg_nonneg)
  have "(clock - (clock + (- days) * msPerDay)) div msPerDay = days"
    using msPerDay_pos by simp
  then show ?thesis
    unfolding getSpendingOverTime_def Let_def s using le
    by (simp add: spendingLoop_length)
qed

lemma toISODate_next: "toISODate (d + msPerDay) = toISODate d + 1"
  unfolding toISODate_def using Day_add_days[of d 1] by simp

lemma spendingLoop_dates:
  "map date (spendingLoop tza totals endDate currentDate)
     = map (\<lambda>k. toISODate currentDate + int k)
         [0 ..< length (spendingLoop tza totals endDate currentDate)]"
proof (induction tza totals endDate currentDate rule: spendingLoop.induct)
  case (1 tza totals endDate currentDate)
  show ?case
  proof (cases "currentDate \<le> endDate")
    case False
    then show ?thesis by (subst (1 2) spendingLoop.simps) simp
  next
    case True
    let ?rest = "spendingLoop tza totals endDate (currentDate + msPerDay)"
    have u: "spendingLoop tza totals endDate currentDate
        = \<lparr>date = toISODate currentDate,
           amount = (case totals (toISODate currentDate) of None \<Rightarrow> 0 | Some v \<Rightarrow> v)\<rparr> # ?rest"
      using True by (subst spendingLoop.simps) (simp add: setDate_next)
    have ih: "map date ?rest = map (\<lambda>k. toISODate currentDate + 1 + int k) [0 ..< length ?rest]"
      using 1[OF True] unfolding setDate_next toISODate_next .
    have "map (\<lambda>k. toISODate currentDate + int k) [0 ..< Suc (length ?rest)]
        = toISODate currentDate # map (\<lambda>k. toISODate currentDate + 1 + int k) [0 ..< length ?rest]"
      by (simp add: upt_rec[of 0] map_Suc_upt[symmetric] del: upt_Suc)
    then show ?thesis unfolding u using ih by simp
  qed
qed

lemma spendingLoop_amounts:
  "list_all (\<lambda>x. amount x = (case totals (date x) of None \<Rightarrow> 0 | Some v \<Rightarrow> v))
     (spendingLoop tza totals endDate currentDate)"
proof (induction tza totals endDate currentDate rule: spendingLoop.induct)
  case (1 tza totals endDate currentDate)
  show ?case
  proof (cases "currentDate \<le> endDate")
    case False
    then show ?thesis by (subst spendingLoop.simps) simp
  next
    case True
    then show ?thesis using 1[OF True] by (subst spendingLoop.simps) simp
  qed
qed

lemma dailyTotals_absent_gen:
  assumes "list_all (\<lambda>e. expense_date e \<noteq> d) data" and "m d = None"
  shows "foldl (\<lambda>totals expense.
              totals(expense_date expense \<mapsto>
                (case totals (expense_date expense) of None \<Rightarrow> 0 | Some v \<Rightarrow> v)
                  + expense_amount expense)) m data d = None"
  using assms by (induction data arbitrary: m) simp_all

lemma dailyTotals_absent:
  "list_all (\<lambda>e. expense_date e \<noteq> d) data \<Longrightarrow> dailyTotals data d = None"
  unfolding dailyTotals_def by (rule dailyTotals_absent_gen) simp_all

lemma spending_series_dates:
  "map date (getSpendingOverTime tza tbl (Some u) clock1 clock2 query_fails days)
     = map (\<lambda>k. toISODate (setDate tza clock2 (getDate tza clock1 - days)) + int k)
         [0 ..< length (getSpendingOverTime tza tbl (Some u) clock1 clock2 query_fails days)]"
  unfolding getSpendingOverTime_def Let_def
  using spendingLoop_dates by simp

lemma spending_series_zero_fill:
  assumes "list_all (\<lambda>e. \<not> (expense_user_id e = u \<and> expense_date e = d)) tbl"
  shows "list_all (\<lambda>x. date x \<noteq> d \<or> amount x = 0)
     (getSpendingOverTime tza tbl (Some u) clock1 clock2 query_fails days)"
proof (cases query_fails)
  case True
  then show ?thesis unfolding getSpendingOverTime_def Let_def by simp
next
  case False
  define s where "s = setDate tza clock2 (getDate tza clock1 - days)"
  define data where "data = sort_key expense_date
       (filter (\<lambda>e. expense_user_id e = u \<and> toISODate s \<le> expense_date e
                  \<and> expense_date e \<le> toISODate clock1) tbl)"
  have "list_all (\<lambda>e. expense_date e \<noteq> d) data"
    using assms unfolding data_def by (auto simp: list_all_iff)
  then have n: "dailyTotals data d = None" by (rule dailyTotals_absent)
  have r: "getSpendingOverTime tza tbl (Some u) clock1 clock2 query_fails days
      = spendingLoop tza (dailyTotals data) clock1 s"
    unfolding getSpendingOverTime_def Let_def data_def s_def using False by simp
  show ?thesis
    unfolding r using spendingLoop_amounts[of "dailyTotals data" tza clock1 s] n
    by (auto simp: list_all_iff)
qed

text \<open>
  Claim C2 says that the series of \<^verbatim>\<open>getSpendingOverTime(N)\<close> has exactly \<open>N\<close> entries.
  The loop runs from the day \<open>N\<close> days before today up to today, both included, as long
  as the start instant is not after the end instant: when the two clock readings are the
  same instant the series has \<open>N + 1\<close> entries (\<open>spending_series_same_instant\<close>). For
  \<open>N = 7\<close>, a caller without expenses and both readings at 2024-06-15T12:00:00Z, the
  series has 8 entries, for the days 2024-06-08 to 2024-06-15. The rest of the claim
  holds: the dates are consecutive days in rising order (\<open>spending_series_dates\<close>) and
  a day without an expense of the caller has the amount 0
  (\<open>spending_series_zero_fill\<close>).
\<close>

theorem spending_series_length:
  "length (getSpendingOverTime 0 [] (Some ''u1'') 1718452800000 1718452800000 False 7) = 8
   \<and> map date (getSpendingOverTime 0 [] (Some ''u1'') 1718452800000 1718452800000 False 7)
       = [19882, 19883, 19884, 19885, 19886, 19887, 19888, 19889]"
  by code_simp

section \<open>Insight generation\<close>

text \<open>
  The snapshot that the premium component derives (\<^verbatim>\<open>calculateFinancialData\<close>), the
  rule-based insights of the route \<^verbatim>\<open>/api/ai-insights\<close> (\<^verbatim>\<open>generateFallbackInsights\<close>)
  and the handler of that route (\<^verbatim>\<open>POST\<close>). The field \<^verbatim>\<open>budget\<close> of the snapshot is
  \<open>fd_budget\<close> here, since the summary has a field of that name.
\<close>

record FinancialData =
  fd_budget :: real
  total_spent :: real
  percent_used :: real
  daily_average :: real
  projected_days_remaining :: real
  top_category :: string
  risk_level :: string

record Insight =
  icon :: string
  title :: string
  description :: string
  type :: string

text \<open>
  \<^verbatim>\<open>Math.round\<close> rounds to the nearest integer, a tie towards plus infinity;
  \<^verbatim>\<open>Math.floor\<close> rounds down.
\<close>

definition Math_round :: "real \<Rightarrow> real" where
  "Math_round x = of_int \<lfloor>x + 1 / 2\<rfloor>"

definition Math_floor :: "real \<Rightarrow> real" where
  "Math_floor x = of_int \<lfloor>x\<rfloor>"

text \<open>The risk tier, as the component assigns it from \<^verbatim>\<open>percentUsed\<close>.\<close>

definition riskLevel :: "real \<Rightarrow> string" where
  "riskLevel percentUsed =
     (if percentUsed > 75 then ''high''
      else if percentUsed \<ge> 40 then ''moderate''
      else ''low'')"

text \<open>
  The totals per category are an object filled in the order of the expenses; its entries
  are sorted by falling total with a stable sort, and the first key is the top category
  (\<^verbatim>\<open>"None"\<close> when there is no entry or the key is the empty text). An object lists
  keys that are written like array indices before the others; categories are names, and
  the model keeps the order of first occurrence.
\<close>

fun bump :: "(string \<times> real) list \<Rightarrow> string \<Rightarrow> real \<Rightarrow> (string \<times> real) list" where
  "bump [] k a = [(k, 0 + a)]"
| "bump ((k', v) # kvs) k a = (if k' = k then (k', v + a) # kvs else (k', v) # bump kvs k a)"

definition topCategory :: "Expense list \<Rightarrow> string" where
  "topCategory es =
     (let categoryTotals = foldl (\<lambda>acc e. bump acc (category e) (expense_amount e)) [] es
      in case sort_key (\<lambda>kv. - snd kv) categoryTotals of
           [] \<Rightarrow> ''None''
         | kv # _ \<Rightarrow> (if fst kv = [] then ''None'' else fst kv))"

text \<open>
  \<^verbatim>\<open>calculateFinancialData\<close>, from the summary, the caller's expenses and the clock
  reading \<open>now\<close>. \<^verbatim>\<open>new Date(e.date)\<close> of a date text is midnight UTC of that day.
  The summary and the list of expenses are always objects, so the early return of
  \<^verbatim>\<open>null\<close> in the source is never taken.
\<close>

definition calculateFinancialData ::
  "int \<Rightarrow> BudgetSummary \<Rightarrow> Expense list \<Rightarrow> date \<Rightarrow> FinancialData" where
  "calculateFinancialData tza summary es now =
     (let totalSpent = totalSpent summary;
          budget = (case budget summary of None \<Rightarrow> 0 | Some b \<Rightarrow> budget_amount b);
          percentUsed = (if budget > 0 then Math_round ((totalSpent / budget) * 100) else 0);
          thirtyDaysAgo = setDate tza now (getDate tza now - 30);
          recentExpenses = filter (\<lambda>e. expense_date e * msPerDay \<ge> thirtyDaysAgo) es;
          dailyAverage =
            (if length recentExpenses > 0
             then Math_round (foldl (\<lambda>sum e. sum + expense_amount e) 0 recentExpenses / 30)
             else 0);
          projectedDays =
            (if dailyAverage > 0 \<and> budget > totalSpent
             then Math_floor ((budget - totalSpent) / dailyAverage)
             else 0)
      in \<lparr>fd_budget = budget, total_spent = totalSpent, percent_used = percentUsed,
           daily_average = dailyAverage, projected_days_remaining = projectedDays,
           top_category = topCategory es, risk_level = riskLevel percentUsed\<rparr>)"

text \<open>
  The peso sign of the texts, as its three bytes in UTF-8. \<open>str\<close> stands for the text
  that the runtime gives a number inside a template literal; it is the same function in
  every run.
\<close>

definition peso :: string where
  "peso = [CHR 0xE2, CHR 0x82, CHR 0xB1]"

definition generateFallbackInsights :: "(real \<Rightarrow> string) \<Rightarrow> FinancialData \<Rightarrow> Insight list" where
  "generateFallbackInsights str data =
     [if risk_level data = ''high'' then
        \<lparr>icon = ''alert'', title = ''Budget Critical'',
         description = ''You've used '' @ str (percent_used data)
           @ ''% of your budget. Cut non-essential spending immediately.'',
         type = ''alert''\<rparr>
      else if risk_level data = ''moderate'' then
        \<lparr>icon = ''warning'', title = ''Budget Warning'',
         description = ''You're at '' @ str (percent_used data)
           @ ''% budget usage. Slow down spending to stay on track.'',
         type = ''warning''\<rparr>
      else
        \<lparr>icon = ''check'', title = ''Budget Healthy'',
         description = ''Great job! Only '' @ str (percent_used data)
           @ ''% used. You're well within your budget.'',
         type = ''success''\<rparr>,
      \<lparr>icon = ''trend'', title = ''Daily Spending'',
       description = ''Your daily average is '' @ peso @ str (daily_average data)
         @ ''. At this rate, budget runs out in '' @ str (projected_days_remaining data)
         @ '' days.'',
       type = (if projected_days_remaining data < 7 then ''warning'' else ''tip'')\<rparr>,
      \<lparr>icon = ''lightbulb'', title = ''Top Category Focus'',
       description = top_category data
         @ '' is your biggest expense. Review these transactions for savings opportunities.'',
       type = ''tip''\<rparr>,
      \<lparr>icon = ''trend'', title = ''Savings Potential'',
       description =
         (if percent_used data < 50
          then ''You're on track to save '' @ peso @ str (fd_budget data - total_spent data)
                 @ '' this period. Keep it up!''
          else ''Reduce discretionary spending to avoid exceeding your '' @ peso
                 @ str (fd_budget data) @ '' budget.''),
       type = (if percent_used data < 50 then ''success'' else ''warning'')\<rparr>]"

text \<open>
  The handler. \<open>openai\<close> is \<open>None\<close> when no API key is configured, and otherwise the
  outcome of the one call to the external API at this request: it throws, or it returns a
  message content (possibly \<^verbatim>\<open>null\<close>). \<open>extractJson\<close> stands for the two regular
  expressions that cut the JSON text out of the content and \<open>JSON_parse\<close> for
  \<^verbatim>\<open>JSON.parse\<close>, \<open>None\<close> when it throws. \<open>Malformed\<close> is a request whose body cannot
  be read, which ends in the outer \<^verbatim>\<open>catch\<close>.
\<close>

datatype completion = Throws | Content "string option"

datatype 'j payload = FromModel 'j | Local "Insight list"

datatype 'j response =
  ErrorResponse string nat
  | InsightsResponse "'j payload" string "string option"

datatype body = Malformed | Body "FinancialData option"

definition POST ::
  "(real \<Rightarrow> string) \<Rightarrow> (string \<Rightarrow> string) \<Rightarrow> (string \<Rightarrow> 'j option) \<Rightarrow> completion option
     \<Rightarrow> store \<Rightarrow> string option \<Rightarrow> body \<Rightarrow> 'j response" where
  "POST str extractJson JSON_parse openai db user request =
     (case user of
        None \<Rightarrow> ErrorResponse ''Not authenticated'' 401
      | Some u \<Rightarrow>
          (case single (filter (\<lambda>p. profile_id p = u) (profiles db)) of
             None \<Rightarrow> ErrorResponse ''Premium required'' 403
           | Some profile \<Rightarrow>
               if \<not> is_premium profile then ErrorResponse ''Premium required'' 403
               else
                 (case request of
                    Malformed \<Rightarrow> ErrorResponse ''Failed to generate insights'' 500
                  | Body None \<Rightarrow> ErrorResponse ''Financial data required'' 400
                  | Body (Some financialData) \<Rightarrow>
                      (let unavailable =
                             InsightsResponse
                               (Local (generateFallbackInsights str financialData)) ''fallback''
                               (Some ''Using local analysis. AI service temporarily unavailable.'')
                       in case openai of
                            None \<Rightarrow>
                              InsightsResponse
                                (Local (generateFallbackInsights str financialData)) ''fallback''
                                (Some (''AI insights temporarily using local analysis. ''
                                   @ ''Add OPENAI_API_KEY for advanced insights.''))
                          | Some Throws \<Rightarrow> unavailable
                          | Some (Content None) \<Rightarrow> unavailable
                          | Some (Content (Some content)) \<Rightarrow>
                              if content = [] then unavailable
                              else
                                (case JSON_parse (extractJson content) of
                                   None \<Rightarrow>
                                     InsightsResponse
                                       (Local (generateFallbackInsights str financialData))
                                       ''ai'' None
                                 | Some insights \<Rightarrow>
                                     InsightsResponse (FromModel insights) ''ai'' None)))))"

text \<open>The insights of a response that were computed locally, if any.\<close>

fun local_insights :: "'j response \<Rightarrow> Insight list option" where
  "local_insights (InsightsResponse (Local xs) source message) = Some xs"
| "local_insights r = None"

subsection \<open>Example data\<close>

definition snapshot_60 :: FinancialData where
  "snapshot_60 = \<lparr>fd_budget = 5000, total_spent = 3000, percent_used = 60,
     daily_average = 100, projected_days_remaining = 20, top_category = ''Travel'',
     risk_level = ''moderate''\<rparr>"

definition str_60 :: "real \<Rightarrow> string" where
  "str_60 x = (if x = 60 then ''60'' else if x = 100 then ''100'' else if x = 20 then ''20''
     else if x = 5000 then ''5000'' else ''?'')"

subsection \<open>Properties\<close>

lemma local_insights_POST:
  "local_insights (POST str ex jp ai db user (Body (Some d))) = Some xs
     \<Longrightarrow> xs = generateFallbackInsights str d"
  unfolding POST_def
  by (auto simp: Let_def split: option.splits if_splits completion.splits)

text \<open>
  Claim C9. The fallback insights are a function of the snapshot alone: the list has
  exactly 4 records; any two runs of the handler on the same snapshot that answer with
  locally computed insights answer with the same list, whatever the caller, the store, the
  configuration and the behaviour of the external API in either run; and when the external
  API is not configured or its call fails, a premium caller gets exactly that list.
\<close>

theorem fallback_deterministic:
  "length (generateFallbackInsights str d) = 4
   \<and> (local_insights (POST str ex jp ai db user (Body (Some d))) = Some xs
        \<and> local_insights (POST str ex' jp' ai' db' user' (Body (Some d))) = Some ys
      \<longrightarrow> xs = ys \<and> xs = generateFallbackInsights str d)
   \<and> (single (filter (\<lambda>p. profile_id p = u) (profiles db)) = Some profile
        \<and> is_premium profile
        \<and> (ai = None \<or> ai = Some Throws \<or> ai = Some (Content None))
      \<longrightarrow> local_insights (POST str ex jp ai db (Some u) (Body (Some d)))
            = Some (generateFallbackInsights str d))"
proof (intro conjI impI)
  show "length (generateFallbackInsights str d) = 4"
    by (simp add: generateFallbackInsights_def)
next
  assume "local_insights (POST str ex jp ai db user (Body (Some d))) = Some xs
        \<and> local_insights (POST str ex' jp' ai' db' user' (Body (Some d))) = Some ys"
  then have "xs = generateFallbackInsights str d" "ys = generateFallbackInsights str d"
    by (auto dest: local_insights_POST)
  then show "xs = ys" "xs = generateFallbackInsights str d" by simp_all
next
  assume "single (filter (\<lambda>p. profile_id p = u) (profiles db)) = Some profile
        \<and> is_premium profile
        \<and> (ai = None \<or> ai = Some Throws \<or> ai = Some (Content None))"
  then show "local_insights (POST str ex jp ai db (Some u) (Body (Some d)))
            = Some (generateFallbackInsights str d)"
    unfolding POST_def by (auto simp: Let_def)
qed

theorem fallback_deterministic_witness:
  "single (filter (\<lambda>p. profile_id p = ''a1'') (profiles db_pending)) = Some profile_admin
   \<and> is_premium profile_admin
   \<and> local_insights (POST str_60 (\<lambda>s. s) (\<lambda>s. None :: unit option) None
         db_pending (Some ''a1'') (Body (Some snapshot_60)))
       = Some (generateFallbackInsights str_60 snapshot_60)
   \<and> local_insights (POST str_60 (\<lambda>s. s) (\<lambda>s. Some ()) (Some Throws)
         db_rejected (Some ''a1'') (Body (Some snapshot_60)))
       = Some (generateFallbackInsights str_60 snapshot_60)
   \<and> length (generateFallbackInsights str_60 snapshot_60) = 4
   \<and> map title (generateFallbackInsights str_60 snapshot_60)
       = [''Budget Warning'', ''Daily Spending'', ''Top Category Focus'', ''Savings Potential'']
   \<and> description (generateFallbackInsights str_60 snapshot_60 ! 0)
       = ''You're at 60% budget usage. Slow down spending to stay on track.''"
proof -
  have 1: "single (filter (\<lambda>p. profile_id p = ''a1'') (profiles db_pending)) = Some profile_admin"
    by (simp add: db_pending_def profile_admin_def profile_user_def single_def)
  have 5: "single (filter (\<lambda>p. profile_id p = ''a1'') (profiles db_rejected)) = Some profile_admin"
    by (simp add: db_rejected_def profile_admin_def profile_user_def single_def)
  have 2: "is_premium profile_admin" by (simp add: profile_admin_def)
  have 3: "map title (generateFallbackInsights str_60 snapshot_60)
       = [''Budget Warning'', ''Daily Spending'', ''Top Category Focus'', ''Savings Potential'']"
    by (simp add: generateFallbackInsights_def snapshot_60_def)
  have 4: "description (generateFallbackInsights str_60 snapshot_60 ! 0)
       = ''You're at 60% budget usage. Slow down spending to stay on track.''"
    by (simp add: generateFallbackInsights_def snapshot_60_def str_60_def)
  note a = fallback_deterministic[where str = str_60 and d = snapshot_60 and ai = None
      and db = db_pending and u = "''a1''" and profile = profile_admin and ex = "\<lambda>s. s"
      and jp = "\<lambda>s. None :: unit option"]
  note b = fallback_deterministic[where str = str_60 and d = snapshot_60 and ai = "Some Throws"
      and db = db_rejected and u = "''a1''" and profile = profile_admin and ex = "\<lambda>s. s"
      and jp = "\<lambda>s. Some ()"]
  note len = a[THEN conjunct1]
  note run1 = a[THEN conjunct2, THEN conjunct2, THEN mp, OF conjI[OF 1 conjI[OF 2 disjI1[OF refl]]]]
  note run2 = b[THEN conjunct2, THEN conjunct2, THEN mp,
      OF conjI[OF 5 conjI[OF 2 disjI2[OF disjI1[OF refl]]]]]
  show ?thesis
    using 1 2 3 4 len run1 run2 by simp
qed

text \<open>
  Claim C7. In every snapshot that \<^verbatim>\<open>calculateFinancialData\<close> returns, the risk tier is
  \<open>high\<close> exactly when \<open>percent_used > 75\<close>, \<open>moderate\<close> exactly when
  \<open>40 \<le> percent_used \<le> 75\<close>, and \<open>low\<close> exactly when \<open>percent_used < 40\<close>; 75 gives
  \<open>moderate\<close> and 76 gives \<open>high\<close>.
\<close>

theorem risk_tier:
  "(let d = calculateFinancialData tza summary es now
    in (risk_level d = ''high'' \<longleftrightarrow> percent_used d > 75)
       \<and> (risk_level d = ''moderate'' \<longleftrightarrow> 40 \<le> percent_used d \<and> percent_used d \<le> 75)
       \<and> (risk_level d = ''low'' \<longleftrightarrow> percent_used d < 40))
   \<and> riskLevel 75 = ''moderate'' \<and> riskLevel 76 = ''high''"
proof -
  define d where "d = calculateFinancialData tza summary es now"
  have r: "risk_level d = riskLevel (percent_used d)"
    unfolding d_def calculateFinancialData_def by (simp add: Let_def)
  show ?thesis
    unfolding d_def[symmetric] Let_def r riskLevel_def by auto
qed

end
